theory Spec2Isabelle
  imports Complex_Main "HOL-Library.AList" "HOL-Library.Char_ord" "HOL-Library.List_Lexorder"
    "HOL-Library.Product_Lexorder"
begin

section \<open>Data model (models/models.go)\<close>

text \<open>
  The structs of \<^verbatim>\<open>models.go\<close> as records, with the Go field names. A \<^verbatim>\<open>time.Time\<close>
  is a number of seconds since the epoch, a \<^verbatim>\<open>float64\<close> is a real number (no property
  below reads one), a Go \<^verbatim>\<open>string\<close> is a list of bytes.
\<close>

type_synonym Time = int

record User =
  ID :: string
  Email :: string
  Name :: string
  Picture :: string
  Role :: string
  CreatedAt :: Time
  UpdatedAt :: Time
  LastLoginAt :: Time

record Location =
  Latitude :: real
  Longitude :: real

record Field =
  ID :: string
  Name :: string
  Location :: string
  RiceVariety :: string
  TentativeDate :: string
  Coordinates :: Location
  Area :: real
  OwnerID :: string
  CreatedAt :: Time
  UpdatedAt :: Time

record TraitMeasurements =
  CulmLength :: real
  PanicleLength :: real
  PaniclesPerHill :: int
  HillsObserved :: int

record Submission =
  ID :: string
  UserID :: string
  FieldID :: string
  Date :: Time
  GrowthStage :: string
  PlantConditions :: "string list"
  TraitMeasurements :: TraitMeasurements
  Notes :: string
  ObserverName :: string
  Images :: "string list"
  Status :: string
  CreatedAt :: Time
  UpdatedAt :: Time

record CreateSubmissionRequest =
  FieldID :: string
  Date :: Time
  GrowthStage :: string
  PlantConditions :: "string list"
  TraitMeasurements :: TraitMeasurements
  Notes :: string
  ObserverName :: string
  Images :: "string list"

record SubmissionResponse =
  ID :: string
  UserID :: string
  FieldID :: string
  Field :: Field
  Date :: Time
  GrowthStage :: string
  PlantConditions :: "string list"
  TraitMeasurements :: TraitMeasurements
  Notes :: string
  ObserverName :: string
  Images :: "string list"
  Status :: string
  CreatedAt :: Time
  UpdatedAt :: Time

record GoogleUserInfo =
  Email :: string
  Name :: string
  Picture :: string

text \<open>
  \<^verbatim>\<open>Claims\<close> embeds \<^verbatim>\<open>jwt.RegisteredClaims\<close>; of the registered claims the three
  time stamps that validation reads are kept, each optional as in the library.
\<close>

record Claims =
  UserID :: string
  Email :: string
  Role :: string
  ExpiresAt :: "Time option"
  IssuedAt :: "Time option"
  NotBefore :: "Time option"

record AuthResponse =
  User :: User
  AccessToken :: string
  RefreshToken :: string
  ExpiresIn :: int

text \<open>
  What a handler hands to gin: \<^verbatim>\<open>c.JSON(status, models.ErrorResponse{Error, Message})\<close>,
  \<^verbatim>\<open>c.JSON(status, models.SuccessResponse{Success: true, Data, Message})\<close> (the data is
  omitted when empty), \<^verbatim>\<open>c.JSON(status, body)\<close> with another body,
  \<^verbatim>\<open>c.String(status, text)\<close>, or a run-time panic.
\<close>

datatype 'a reply =
    ErrorResponse nat string string
  | SuccessResponse nat "'a option" string
  | JSON nat 'a
  | String nat string
  | Panic

section \<open>The document store (services/firestore.go and the Firestore client)\<close>

text \<open>
  A collection is the list of its documents, each under its document id; the order of the
  list is the order in which a query without \<^verbatim>\<open>OrderBy\<close> returns the documents (where
  \<^verbatim>\<open>Set\<close> adds a document the model puts it last; no property below depends on its
  place). The stored documents are the typed structs the handlers write with \<^verbatim>\<open>Set\<close>
  and read with \<^verbatim>\<open>DataTo\<close>. The store is a managed service: a call fails here only for
  a reason of its contract (the document is absent, the update list is refused, the
  query is ill-formed), never for a transient fault, and the indexes the queries need
  exist.
\<close>

type_synonym 'd collection = "(string \<times> 'd) list"

record FirestoreService =
  Users :: "User collection"
  Submissions :: "Submission collection"
  Fields :: "Field collection"

datatype fs_error = NotFound | NoPaths | InvalidPath | DupOrPrefix | NegativeOffset | NegativeLimit

definition doc_Get :: "'d collection \<Rightarrow> string \<Rightarrow> fs_error + 'd" where
  "doc_Get coll docID = (case map_of coll docID of None \<Rightarrow> Inl NotFound | Some d \<Rightarrow> Inr d)"

definition doc_Set :: "'d collection \<Rightarrow> string \<Rightarrow> 'd \<Rightarrow> fs_error + 'd collection" where
  "doc_Set coll docID d = Inr (AList.update docID d coll)"

definition doc_Delete :: "'d collection \<Rightarrow> string \<Rightarrow> fs_error + 'd collection" where
  "doc_Delete coll docID = Inr (AList.delete docID coll)"

text \<open>
  Queries. \<^verbatim>\<open>Where(field, "==", v)\<close> keeps the documents that satisfy the test;
  \<^verbatim>\<open>OrderBy("created_at", firestore.Desc)\<close> sorts by creation time, newest first, and by
  document id among equal times; \<^verbatim>\<open>Documents(ctx).GetAll()\<close> skips \<open>offset\<close> documents
  and returns at most \<open>limit\<close> of the rest, and refuses a negative offset or limit.
  The client keeps the offset and the limit of a query as 32-bit integers: a Go \<^verbatim>\<open>int\<close>
  above \<open>2^31 - 1\<close> is clamped to it, any other is converted, and wraps around when it
  lies below \<open>- 2^31\<close>. The test for a negative value sees the 32-bit integer.
\<close>

definition trunc32 :: "int \<Rightarrow> int" where
  "trunc32 i = (if i > 2147483647 then 2147483647 else (i + 2 ^ 31) mod 2 ^ 32 - 2 ^ 31)"

definition Where :: "('d \<Rightarrow> bool) \<Rightarrow> 'd collection \<Rightarrow> 'd collection" where
  "Where test coll = filter (\<lambda>d. test (snd d)) coll"

definition OrderBy_created_at_Desc :: "Submission collection \<Rightarrow> Submission collection" where
  "OrderBy_created_at_Desc coll =
     rev (sort_key (\<lambda>d. (Submission.CreatedAt (snd d), fst d)) coll)"

definition GetAll :: "'d collection \<Rightarrow> int \<Rightarrow> int option \<Rightarrow> fs_error + 'd collection" where
  "GetAll coll offset limit =
     (if trunc32 offset < 0 then Inl NegativeOffset
      else (case limit of
        None \<Rightarrow> Inr (drop (nat (trunc32 offset)) coll)
      | Some l \<Rightarrow>
          if trunc32 l < 0 then Inl NegativeLimit
          else Inr (take (nat (trunc32 l)) (drop (nat (trunc32 offset)) coll))))"

text \<open>
  \<^verbatim>\<open>DocumentRef.Update(ctx, []firestore.Update)\<close>. Each \<^verbatim>\<open>Path\<close> is a dot-separated
  field path. The client refuses the list before anything is sent when it is empty, when
  a path is malformed, or when one field path equals or is a prefix of another one of the
  same list (``field path ... cannot be used in the same update as ...''); the service
  refuses it when the document does not exist. Otherwise the values at the given paths
  are replaced and the other fields are untouched: \<open>merge\<close> is that replacement of one
  path in a stored struct.
\<close>

fun split_on :: "char \<Rightarrow> string \<Rightarrow> string list" where
  "split_on c [] = [[]]"
| "split_on c (x # xs) =
     (if x = c then [] # split_on c xs
      else (x # hd (split_on c xs)) # tl (split_on c xs))"

definition parseDotSeparatedString :: "string \<Rightarrow> string list option" where
  "parseDotSeparatedString s =
     (if list_ex (\<lambda>c. c \<in> set ''~*/[]'') s then None
      else if list_ex (\<lambda>c. c = []) (split_on CHR ''.'' s) then None
      else Some (split_on CHR ''.'' s))"

definition prefixOf :: "string list \<Rightarrow> string list \<Rightarrow> bool" where
  "prefixOf p q = (length p \<le> length q \<and> take (length p) q = p)"

fun checkNoDupOrPrefix :: "string list list \<Rightarrow> bool" where
  "checkNoDupOrPrefix [] = True"
| "checkNoDupOrPrefix (p # ps) =
     (list_all (\<lambda>q. \<not> prefixOf p q \<and> \<not> prefixOf q p) ps \<and> checkNoDupOrPrefix ps)"

definition doc_Update ::
  "(string list \<Rightarrow> 'v \<Rightarrow> 'd \<Rightarrow> 'd) \<Rightarrow> 'd collection \<Rightarrow> string \<Rightarrow> (string \<times> 'v) list
     \<Rightarrow> fs_error + 'd collection" where
  "doc_Update merge coll docID updates =
     (if updates = [] then Inl NoPaths
      else (case those (map (\<lambda>u. parseDotSeparatedString (fst u)) updates) of
        None \<Rightarrow> Inl InvalidPath
      | Some fps \<Rightarrow>
          if \<not> checkNoDupOrPrefix fps then Inl DupOrPrefix
          else (case map_of coll docID of
            None \<Rightarrow> Inl NotFound
          | Some d \<Rightarrow>
              Inr (AList.update docID
                    (foldl (\<lambda>d' u. merge (fst u) (snd u) d') d (zip fps (map snd updates)))
                    coll))))"

section \<open>Utilities (utils/utils.go)\<close>

text \<open>\<^verbatim>\<open>strings.HasPrefix\<close> and \<^verbatim>\<open>strings.TrimPrefix\<close> of the Go library.\<close>

definition HasPrefix :: "string \<Rightarrow> string \<Rightarrow> bool" where
  "HasPrefix s p = (length p \<le> length s \<and> take (length p) s = p)"

definition TrimPrefix :: "string \<Rightarrow> string \<Rightarrow> string" where
  "TrimPrefix s p = (if HasPrefix s p then drop (length p) s else s)"

text \<open>
  \<^verbatim>\<open>ValidateFileType\<close>: the file name ends with one of the allowed extensions. The Go
  code ranges over a map of the four extensions and returns at the first hit; the result
  does not depend on the order.
\<close>

definition allowedTypes :: "string list" where
  "allowedTypes = [''.jpg'', ''.jpeg'', ''.png'', ''.webp'']"

definition ValidateFileType :: "string \<Rightarrow> bool" where
  "ValidateFileType filename =
     list_ex (\<lambda>ext. length ext \<le> length filename
                  \<and> drop (length filename - length ext) filename = ext) allowedTypes"

subsection \<open>Tokens\<close>

text \<open>
  The JWT library (golang-jwt v4) is not part of the repository. Its three services are
  parameters of the model: \<open>sstr\<close> serialises the header and the claims of a token into
  the text that is signed, \<open>mac\<close> is the keyed signature of that text under a signing
  method, and \<open>parse\<close> reads a compact token back (\<^verbatim>\<open>Parser.ParseUnverified\<close>): its
  method, its claims, the signed text and the signature, or nothing when the text is
  malformed or names no registered method.
\<close>

datatype SigningMethod = HS256 | HS384 | HS512 | OtherMethod string

record Token =
  Method :: SigningMethod
  Claims :: Claims
  SigningString :: string
  Signature :: string

datatype jwt_error = Malformed | Unverifiable | ClaimsInvalid | SignatureInvalid

definition SignedString ::
  "(SigningMethod \<Rightarrow> Claims \<Rightarrow> string) \<Rightarrow> (SigningMethod \<Rightarrow> string \<Rightarrow> string \<Rightarrow> string)
     \<Rightarrow> SigningMethod \<Rightarrow> Claims \<Rightarrow> string \<Rightarrow> string" where
  "SignedString sstr mac m c key = sstr m c @ ''.'' @ mac m key (sstr m c)"



text \<open>
  \<^verbatim>\<open>GenerateTokens\<close>. The clock is read once per call of a function of the model: the
  successive \<^verbatim>\<open>time.Now()\<close> of one Go function return the same second \<open>now\<close>. Signing
  with a byte-slice key under HS256 does not fail, so the error results of the Go
  function are left out.
\<close>

definition GenerateTokens ::
  "(SigningMethod \<Rightarrow> Claims \<Rightarrow> string) \<Rightarrow> (SigningMethod \<Rightarrow> string \<Rightarrow> string \<Rightarrow> string)
     \<Rightarrow> string \<Rightarrow> User \<Rightarrow> Time \<Rightarrow> string \<times> string" where
  "GenerateTokens sstr mac jwtSecret user now =
     (let accessClaims = \<lparr>Claims.UserID = User.ID user, Claims.Email = User.Email user,
            Claims.Role = User.Role user, Claims.ExpiresAt = Some (now + 3600),
            Claims.IssuedAt = Some now, Claims.NotBefore = None\<rparr>;
          accessTokenString = SignedString sstr mac HS256 accessClaims jwtSecret;
          refreshClaims = \<lparr>Claims.UserID = User.ID user, Claims.Email = User.Email user,
            Claims.Role = User.Role user, Claims.ExpiresAt = Some (now + 3600 * 24 * 7),
            Claims.IssuedAt = Some now, Claims.NotBefore = None\<rparr>;
          refreshTokenString = SignedString sstr mac HS256 refreshClaims jwtSecret
      in (accessTokenString, refreshTokenString))"

text \<open>
  \<^verbatim>\<open>RegisteredClaims.Valid\<close> at the time \<open>now\<close>: an expiry that is set must lie after
  \<open>now\<close>, an issue time and a not-before time that are set must not.
\<close>

definition claims_Valid :: "Time \<Rightarrow> Claims \<Rightarrow> bool" where
  "claims_Valid now c =
     ((case Claims.ExpiresAt c of None \<Rightarrow> True | Some e \<Rightarrow> now < e)
      \<and> (case Claims.IssuedAt c of None \<Rightarrow> True | Some i \<Rightarrow> i \<le> now)
      \<and> (case Claims.NotBefore c of None \<Rightarrow> True | Some n \<Rightarrow> n \<le> now))"

definition is_HMAC :: "SigningMethod \<Rightarrow> bool" where
  "is_HMAC m = (m = HS256 \<or> m = HS384 \<or> m = HS512)"

text \<open>
  \<^verbatim>\<open>ValidateToken\<close>: \<^verbatim>\<open>jwt.ParseWithClaims\<close> with a key function that accepts the HMAC
  methods only and returns \<^verbatim>\<open>jwtSecret\<close>. The parser fails on a malformed token, on a
  key function error, on invalid time claims and on a signature that is not the MAC of
  the signed text under the key; \<^verbatim>\<open>ValidateToken\<close> returns the claims when it does not.
\<close>

definition ValidateToken ::
  "(string \<Rightarrow> Token option) \<Rightarrow> (SigningMethod \<Rightarrow> string \<Rightarrow> string \<Rightarrow> string)
     \<Rightarrow> string \<Rightarrow> Time \<Rightarrow> string \<Rightarrow> jwt_error + Claims" where
  "ValidateToken parse mac jwtSecret now tokenString =
     (case parse tokenString of
        None \<Rightarrow> Inl Malformed
      | Some token \<Rightarrow>
          if \<not> is_HMAC (Token.Method token) then Inl Unverifiable
          else if \<not> claims_Valid now (Token.Claims token) then Inl ClaimsInvalid
          else if Token.Signature token
                  \<noteq> mac (Token.Method token) jwtSecret (Token.SigningString token)
            then Inl SignatureInvalid
          else Inr (Token.Claims token))"

section \<open>The authorization gate (middleware/auth.go)\<close>

text \<open>
  \<^verbatim>\<open>getUserByID\<close> of the middleware (the handlers have copies of it): the stored user
  under the document id, or the store's error.
\<close>

definition getUserByID :: "FirestoreService \<Rightarrow> string \<Rightarrow> fs_error + User" where
  "getUserByID fs userID = doc_Get (Users fs) userID"

text \<open>
  The values \<^verbatim>\<open>RequireAuth\<close> sets in the request context (under the keys
  \<^verbatim>\<open>user\<close>, \<^verbatim>\<open>user_id\<close> and \<^verbatim>\<open>user_role\<close>), and what the middleware does
  with the request: it answers with a JSON error and aborts the chain, or it calls
  \<^verbatim>\<open>c.Next()\<close> with the context filled.
\<close>

record Context =
  ctx_user :: User
  ctx_user_id :: string
  ctx_user_role :: string

datatype gate = AbortWithJSON nat string string | Next Context

definition RequireAuth ::
  "(string \<Rightarrow> Token option) \<Rightarrow> (SigningMethod \<Rightarrow> string \<Rightarrow> string \<Rightarrow> string)
     \<Rightarrow> string \<Rightarrow> Time \<Rightarrow> FirestoreService \<Rightarrow> string \<Rightarrow> gate" where
  "RequireAuth parse mac jwtSecret now fs authHeader =
     (if authHeader = [] then
        AbortWithJSON 401 ''unauthorized'' ''Authorization header required''
      else if TrimPrefix authHeader ''Bearer '' = authHeader then
        AbortWithJSON 401 ''unauthorized'' ''Bearer token required''
      else (case ValidateToken parse mac jwtSecret now (TrimPrefix authHeader ''Bearer '') of
        Inl err \<Rightarrow> AbortWithJSON 401 ''unauthorized'' ''Invalid token''
      | Inr claims \<Rightarrow>
          (case getUserByID fs (Claims.UserID claims) of
            Inl err \<Rightarrow> AbortWithJSON 401 ''unauthorized'' ''User not found''
          | Inr u \<Rightarrow>
              Next \<lparr>ctx_user = u, ctx_user_id = User.ID u, ctx_user_role = User.Role u\<rparr>)))"

definition RequireAdmin :: "Context option \<Rightarrow> gate" where
  "RequireAdmin ctx =
     (case ctx of
        None \<Rightarrow> AbortWithJSON 401 ''unauthorized'' ''User not found in context''
      | Some c \<Rightarrow>
          if User.Role (ctx_user c) \<noteq> ''admin'' then
            AbortWithJSON 403 ''forbidden'' ''Admin access required''
          else Next c)"

section \<open>Resource handlers\<close>

text \<open>
  A handler runs behind \<^verbatim>\<open>RequireAuth\<close>: \<open>user\<close> is the user the gate stored in the
  context. A handler that writes returns the store with its reply.

  The body of an update request is bound to a \<^verbatim>\<open>map[string]interface{}\<close>. The values
  of such a map are decoded JSON values, and the time stamp the handler puts in. A JSON
  object binds to the map of its entries, here the list of the entries (\<^verbatim>\<open>delete\<close> and
  assignment are those of an association list; the order of the list stands for the
  order in which Go ranges over the map, which is not specified). The JSON value
  \<^verbatim>\<open>null\<close> binds without an error and leaves the map \<^verbatim>\<open>nil\<close>, here \<open>None\<close>: deleting from
  a nil map does nothing, and the assignment of \<^verbatim>\<open>updated_at\<close> to it panics. A body that
  does not bind is answered 400 before the handler reads the store.
\<close>

datatype any =
    JNull
  | JBool bool
  | JNumber real
  | JString string
  | JArray "any list"
  | JObject "(string \<times> any) list"
  | GoTime Time

subsection \<open>Fields (handlers/fields.go)\<close>

definition getFieldByID :: "FirestoreService \<Rightarrow> string \<Rightarrow> fs_error + Field" where
  "getFieldByID fs fieldID = doc_Get (Fields fs) fieldID"

definition GetFields :: "User \<Rightarrow> FirestoreService \<Rightarrow> Field list reply" where
  "GetFields user fs =
     (case GetAll (Fields fs) 0 None of
        Inl err \<Rightarrow> ErrorResponse 500 ''internal_error'' ''Failed to retrieve fields''
      | Inr docs \<Rightarrow> SuccessResponse 200 (Some (map snd docs)) [])"

definition GetField :: "User \<Rightarrow> FirestoreService \<Rightarrow> string \<Rightarrow> Field reply" where
  "GetField user fs fieldID =
     (case getFieldByID fs fieldID of
        Inl err \<Rightarrow> ErrorResponse 404 ''not_found'' ''Field not found''
      | Inr field \<Rightarrow>
          if User.Role user \<noteq> ''admin'' \<and> Field.OwnerID field \<noteq> User.ID user then
            ErrorResponse 403 ''forbidden'' ''Access denied''
          else SuccessResponse 200 (Some field) [])"

text \<open>
  \<^verbatim>\<open>UpdateField\<close>. \<open>merge\<close> is the store's replacement of one field path in a stored
  field (see \<open>doc_Update\<close>): the handler does not choose it, and nothing below depends
  on it.
\<close>

definition UpdateField ::
  "(string list \<Rightarrow> any \<Rightarrow> Field \<Rightarrow> Field) \<Rightarrow> User \<Rightarrow> FirestoreService \<Rightarrow> string
     \<Rightarrow> (string \<times> any) list option \<Rightarrow> Time \<Rightarrow> Field reply \<times> FirestoreService" where
  "UpdateField merge user fs fieldID updateData now =
     (case getFieldByID fs fieldID of
        Inl err \<Rightarrow> (ErrorResponse 404 ''not_found'' ''Field not found'', fs)
      | Inr field \<Rightarrow>
          if User.Role user \<noteq> ''admin'' \<and> Field.OwnerID field \<noteq> User.ID user then
            (ErrorResponse 403 ''forbidden'' ''Access denied'', fs)
          else (case updateData of
            None \<Rightarrow> (Panic, fs)
          | Some entries \<Rightarrow>
            (let updateData = AList.delete ''id'' entries;
                 updateData = AList.delete ''owner_id'' updateData;
                 updateData = AList.delete ''created_at'' updateData;
                 updateData = AList.update ''updated_at'' (GoTime now) updateData;
                 updates = (''updated_at'', GoTime now) # updateData
             in (case doc_Update merge (Fields fs) fieldID updates of
                Inl err \<Rightarrow> (ErrorResponse 500 ''internal_error'' ''Failed to update field'', fs)
              | Inr coll \<Rightarrow>
                  (case getFieldByID (fs\<lparr>Fields := coll\<rparr>) fieldID of
                    Inl err \<Rightarrow>
                      (ErrorResponse 500 ''internal_error'' ''Failed to retrieve updated field'',
                       fs\<lparr>Fields := coll\<rparr>)
                  | Inr updatedField \<Rightarrow>
                      (SuccessResponse 200 (Some updatedField) ''Field updated successfully'',
                       fs\<lparr>Fields := coll\<rparr>))))))"

definition DeleteField ::
  "User \<Rightarrow> FirestoreService \<Rightarrow> string \<Rightarrow> Field reply \<times> FirestoreService" where
  "DeleteField user fs fieldID =
     (case getFieldByID fs fieldID of
        Inl err \<Rightarrow> (ErrorResponse 404 ''not_found'' ''Field not found'', fs)
      | Inr field \<Rightarrow>
          if User.Role user \<noteq> ''admin'' \<and> Field.OwnerID field \<noteq> User.ID user then
            (ErrorResponse 403 ''forbidden'' ''Access denied'', fs)
          else (case doc_Delete (Fields fs) fieldID of
            Inl err \<Rightarrow> (ErrorResponse 500 ''internal_error'' ''Failed to delete field'', fs)
          | Inr coll \<Rightarrow>
              (SuccessResponse 200 None ''Field deleted successfully'', fs\<lparr>Fields := coll\<rparr>)))"

subsection \<open>Submissions (handlers/submissions.go)\<close>

text \<open>
  The \<^verbatim>\<open>data\<close> of a listing: the submissions of the page, the page and limit asked for,
  and the number of submissions returned.
\<close>

record 'a ListData =
  data_submissions :: "'a list"
  data_page :: int
  data_limit :: int
  data_total :: nat

text \<open>Go's \<^verbatim>\<open>int\<close> is a 64-bit integer: its arithmetic wraps around.\<close>

definition wrap64 :: "int \<Rightarrow> int" where
  "wrap64 i = (i + 2 ^ 63) mod 2 ^ 64 - 2 ^ 63"

text \<open>
  \<^verbatim>\<open>GetSubmissions\<close> of \<^verbatim>\<open>submissions.go\<close>. \<open>page\<close> and \<open>limit\<close> are the integers
  \<^verbatim>\<open>strconv.Atoi\<close> returned for the query parameters (their defaults are 1 and 20);
  \<open>status\<close> and \<open>fieldID\<close> are empty when the parameter is absent.
\<close>

definition GetSubmissions ::
  "User \<Rightarrow> FirestoreService \<Rightarrow> int \<Rightarrow> int \<Rightarrow> string \<Rightarrow> string \<Rightarrow> Submission ListData reply" where
  "GetSubmissions user fs page limit status fieldID =
     (let query = Submissions fs;
          query = (if User.Role user \<noteq> ''admin''
                   then Where (\<lambda>s. Submission.UserID s = User.ID user) query else query);
          query = (if status \<noteq> [] then Where (\<lambda>s. Submission.Status s = status) query
                   else query);
          query = (if fieldID \<noteq> [] then Where (\<lambda>s. Submission.FieldID s = fieldID) query
                   else query);
          query = OrderBy_created_at_Desc query;
          offset = (if page > 1 then wrap64 (wrap64 (page - 1) * limit) else 0)
      in (case GetAll query offset (Some limit) of
            Inl err \<Rightarrow> ErrorResponse 500 ''internal_error'' ''Failed to retrieve submissions''
          | Inr docs \<Rightarrow>
              SuccessResponse 200
                (Some \<lparr>data_submissions = map snd docs, data_page = page, data_limit = limit,
                       data_total = length docs\<rparr>) []))"

definition GetSubmission :: "User \<Rightarrow> FirestoreService \<Rightarrow> string \<Rightarrow> Submission reply" where
  "GetSubmission user fs submissionID =
     (case doc_Get (Submissions fs) submissionID of
        Inl err \<Rightarrow> ErrorResponse 404 ''not_found'' ''Submission not found''
      | Inr submission \<Rightarrow>
          if User.Role user \<noteq> ''admin'' \<and> Submission.UserID submission \<noteq> User.ID user then
            ErrorResponse 403 ''forbidden'' ''Access denied''
          else SuccessResponse 200 (Some submission) [])"

text \<open>
  \<^verbatim>\<open>UpdateSubmission\<close> and \<^verbatim>\<open>DeleteSubmission\<close> (the same text in \<^verbatim>\<open>submissions.go\<close> and
  in the second copy of the handlers). \<open>merge\<close> is the store's, as for \<open>UpdateField\<close>.
\<close>

definition UpdateSubmission ::
  "(string list \<Rightarrow> any \<Rightarrow> Submission \<Rightarrow> Submission) \<Rightarrow> User \<Rightarrow> FirestoreService \<Rightarrow> string
     \<Rightarrow> (string \<times> any) list option \<Rightarrow> Time \<Rightarrow> Submission reply \<times> FirestoreService" where
  "UpdateSubmission merge user fs submissionID updateData now =
     (case doc_Get (Submissions fs) submissionID of
        Inl err \<Rightarrow> (ErrorResponse 404 ''not_found'' ''Submission not found'', fs)
      | Inr submission \<Rightarrow>
          if User.Role user \<noteq> ''admin'' \<and> Submission.UserID submission \<noteq> User.ID user then
            (ErrorResponse 403 ''forbidden'' ''Access denied'', fs)
          else (case updateData of
            None \<Rightarrow> (Panic, fs)
          | Some entries \<Rightarrow>
            (let updateData = AList.delete ''id'' entries;
                 updateData = AList.delete ''user_id'' updateData;
                 updateData = AList.delete ''created_at'' updateData;
                 updateData = AList.update ''updated_at'' (GoTime now) updateData;
                 updates = (''updated_at'', GoTime now) # updateData
             in (case doc_Update merge (Submissions fs) submissionID updates of
                Inl err \<Rightarrow>
                  (ErrorResponse 500 ''internal_error'' ''Failed to update submission'', fs)
              | Inr coll \<Rightarrow>
                  (case doc_Get coll submissionID of
                    Inl err \<Rightarrow>
                      (ErrorResponse 500 ''internal_error''
                         ''Failed to retrieve updated submission'', fs\<lparr>Submissions := coll\<rparr>)
                  | Inr updated \<Rightarrow>
                      (SuccessResponse 200 (Some updated) ''Submission updated successfully'',
                       fs\<lparr>Submissions := coll\<rparr>))))))"

definition DeleteSubmission ::
  "User \<Rightarrow> FirestoreService \<Rightarrow> string \<Rightarrow> Submission reply \<times> FirestoreService" where
  "DeleteSubmission user fs submissionID =
     (case doc_Get (Submissions fs) submissionID of
        Inl err \<Rightarrow> (ErrorResponse 404 ''not_found'' ''Submission not found'', fs)
      | Inr submission \<Rightarrow>
          if User.Role user \<noteq> ''admin'' \<and> Submission.UserID submission \<noteq> User.ID user then
            (ErrorResponse 403 ''forbidden'' ''Access denied'', fs)
          else (case doc_Delete (Submissions fs) submissionID of
            Inl err \<Rightarrow>
              (ErrorResponse 500 ''internal_error'' ''Failed to delete submission'', fs)
          | Inr coll \<Rightarrow>
              (SuccessResponse 200 None ''Submission deleted successfully'',
               fs\<lparr>Submissions := coll\<rparr>)))"

text \<open>
  \<^verbatim>\<open>fmt.Sprintf\<close> on string operands, for the verbs \<^verbatim>\<open>%s\<close> and \<^verbatim>\<open>%v\<close> and the escape
  \<^verbatim>\<open>%%\<close>: a verb without an operand prints \<^verbatim>\<open>%!s(MISSING)\<close>, another verb prints as a
  bad verb, operands left over are reported at the end. The flag tells that the previous
  character was the percent sign.
\<close>

fun extra_operands :: "string list \<Rightarrow> string" where
  "extra_operands [] = []"
| "extra_operands [a] = ''string='' @ a"
| "extra_operands (a # b # bs) = ''string='' @ a @ '', '' @ extra_operands (b # bs)"

fun Sprintf_from :: "bool \<Rightarrow> string \<Rightarrow> string list \<Rightarrow> string" where
  "Sprintf_from pct [] args =
     (if pct then ''%!(NOVERB)'' else [])
     @ (if args = [] then [] else ''%!(EXTRA '' @ extra_operands args @ '')'')"
| "Sprintf_from False (c # cs) args =
     (if c = CHR ''%'' then Sprintf_from True cs args else c # Sprintf_from False cs args)"
| "Sprintf_from True (c # cs) args =
     (if c = CHR ''%'' then c # Sprintf_from False cs args
      else (case args of
        [] \<Rightarrow> ''%!'' @ [c] @ ''(MISSING)'' @ Sprintf_from False cs []
      | a # as \<Rightarrow>
          (if c = CHR ''s'' \<or> c = CHR ''v'' then a
           else ''%!'' @ [c] @ ''(string='' @ a @ '')'') @ Sprintf_from False cs as))"

definition Sprintf :: "string \<Rightarrow> string list \<Rightarrow> string" where
  "Sprintf format args = Sprintf_from False format args"

text \<open>
  \<^verbatim>\<open>ExportSubmissions\<close> of \<^verbatim>\<open>submissions.go\<close>. \<open>Format\<close> is \<^verbatim>\<open>time.Time.Format\<close> of the Go
  library, from a layout and a time to the text of the time. The loop over the query's
  iterator collects the documents; the loop over the submissions appends one formatted
  row each.
\<close>

definition ExportSubmissions ::
  "(string \<Rightarrow> Time \<Rightarrow> string) \<Rightarrow> User \<Rightarrow> FirestoreService \<Rightarrow> unit reply" where
  "ExportSubmissions Format user fs =
     (let query = Submissions fs;
          query = (if User.Role user \<noteq> ''admin''
                   then Where (\<lambda>s. Submission.UserID s = User.ID user) query else query)
      in (case GetAll query 0 None of
            Inl err \<Rightarrow> ErrorResponse 500 ''internal_error'' ''Failed to retrieve submissions''
          | Inr docs \<Rightarrow>
              String 200
                (foldl (\<lambda>csvContent s. csvContent @
                    Sprintf ''%s,%s,%s,%s,%s,%s\<newline>''
                      [Submission.ID s, Format ''2006-01-02'' (Submission.Date s),
                       Submission.GrowthStage s, Submission.ObserverName s, Submission.Status s])
                  ''ID,Date,Location,Growth Stage,Observer,Status\<newline>''
                  (map snd docs))))"

subsection \<open>Submissions, the second copy of the handlers\<close>

text \<open>
  The repository holds a second file of the package \<^verbatim>\<open>handlers\<close> with the same
  \<^verbatim>\<open>SubmissionHandler\<close>. Its \<^verbatim>\<open>UpdateSubmission\<close> and \<^verbatim>\<open>DeleteSubmission\<close> are the ones
  above; the functions that differ are modelled here under the suffix \<open>_2\<close>, and its
  \<^verbatim>\<open>CreateSubmission\<close> is the one modelled (the one of \<^verbatim>\<open>submissions.go\<close> assigns a field
  the struct does not have). The listing and the read join the field of each submission
  into a \<^verbatim>\<open>SubmissionResponse\<close>.
\<close>

definition toSubmissionResponse :: "Submission \<Rightarrow> Field \<Rightarrow> SubmissionResponse" where
  "toSubmissionResponse submission field =
     \<lparr>SubmissionResponse.ID = Submission.ID submission,
      SubmissionResponse.UserID = Submission.UserID submission,
      SubmissionResponse.FieldID = Submission.FieldID submission,
      SubmissionResponse.Field = field,
      SubmissionResponse.Date = Submission.Date submission,
      SubmissionResponse.GrowthStage = Submission.GrowthStage submission,
      SubmissionResponse.PlantConditions = Submission.PlantConditions submission,
      SubmissionResponse.TraitMeasurements = Submission.TraitMeasurements submission,
      SubmissionResponse.Notes = Submission.Notes submission,
      SubmissionResponse.ObserverName = Submission.ObserverName submission,
      SubmissionResponse.Images = Submission.Images submission,
      SubmissionResponse.Status = Submission.Status submission,
      SubmissionResponse.CreatedAt = Submission.CreatedAt submission,
      SubmissionResponse.UpdatedAt = Submission.UpdatedAt submission\<rparr>"

text \<open>
  The loop of the listing over the documents of the page: a submission whose field
  cannot be read is skipped (\<^verbatim>\<open>continue\<close>).
\<close>

fun join_fields :: "FirestoreService \<Rightarrow> Submission list \<Rightarrow> SubmissionResponse list" where
  "join_fields fs [] = []"
| "join_fields fs (submission # rest) =
     (case doc_Get (Fields fs) (Submission.FieldID submission) of
        Inl err \<Rightarrow> join_fields fs rest
      | Inr field \<Rightarrow> toSubmissionResponse submission field # join_fields fs rest)"

definition GetSubmissions_2 ::
  "User \<Rightarrow> FirestoreService \<Rightarrow> int \<Rightarrow> int \<Rightarrow> string \<Rightarrow> SubmissionResponse ListData reply" where
  "GetSubmissions_2 user fs page limit status =
     (let query = Submissions fs;
          query = (if User.Role user \<noteq> ''admin''
                   then Where (\<lambda>s. Submission.UserID s = User.ID user) query else query);
          offset = (if page > 1 then wrap64 (wrap64 (page - 1) * limit) else 0)
      in (case GetAll query offset (Some limit) of
            Inl err \<Rightarrow> ErrorResponse 500 ''internal_error'' ''Failed to retrieve submissions''
          | Inr docs \<Rightarrow>
              (let submissionsResponse = join_fields fs (map snd docs)
               in SuccessResponse 200
                    (Some \<lparr>data_submissions = submissionsResponse, data_page = page,
                           data_limit = limit, data_total = length submissionsResponse\<rparr>) [])))"

text \<open>
  \<^verbatim>\<open>CreateSubmission\<close>. The request is the bound \<^verbatim>\<open>CreateSubmissionRequest\<close> (a body that
  does not bind is answered 400 before this point); \<open>newID\<close> is the identifier
  \<^verbatim>\<open>utils.GenerateID()\<close> draws, a fresh UUID.
\<close>

definition CreateSubmission ::
  "User \<Rightarrow> FirestoreService \<Rightarrow> CreateSubmissionRequest \<Rightarrow> string \<Rightarrow> Time
     \<Rightarrow> Submission reply \<times> FirestoreService" where
  "CreateSubmission user fs req newID now =
     (let submission =
            \<lparr>Submission.ID = newID,
             Submission.UserID = User.ID user,
             Submission.FieldID = CreateSubmissionRequest.FieldID req,
             Submission.Date = CreateSubmissionRequest.Date req,
             Submission.GrowthStage = CreateSubmissionRequest.GrowthStage req,
             Submission.PlantConditions = CreateSubmissionRequest.PlantConditions req,
             Submission.TraitMeasurements = CreateSubmissionRequest.TraitMeasurements req,
             Submission.Notes = CreateSubmissionRequest.Notes req,
             Submission.ObserverName = CreateSubmissionRequest.ObserverName req,
             Submission.Images = CreateSubmissionRequest.Images req,
             Submission.Status = ''submitted'',
             Submission.CreatedAt = now,
             Submission.UpdatedAt = now\<rparr>
      in (case doc_Set (Submissions fs) (Submission.ID submission) submission of
            Inl err \<Rightarrow> (ErrorResponse 500 ''internal_error'' ''Failed to create submission'', fs)
          | Inr coll \<Rightarrow>
              (SuccessResponse 201 (Some submission) ''Submission created successfully'',
               fs\<lparr>Submissions := coll\<rparr>)))"

definition GetSubmission_2 :: "User \<Rightarrow> FirestoreService \<Rightarrow> string \<Rightarrow> SubmissionResponse reply" where
  "GetSubmission_2 user fs submissionID =
     (case doc_Get (Submissions fs) submissionID of
        Inl err \<Rightarrow> ErrorResponse 404 ''not_found'' ''Submission not found''
      | Inr submission \<Rightarrow>
          if User.Role user \<noteq> ''admin'' \<and> Submission.UserID submission \<noteq> User.ID user then
            ErrorResponse 403 ''forbidden'' ''Access denied''
          else (case doc_Get (Fields fs) (Submission.FieldID submission) of
            Inl err \<Rightarrow>
              ErrorResponse 500 ''internal_error'' ''Failed to retrieve associated field data''
          | Inr field \<Rightarrow> SuccessResponse 200 (Some (toSubmissionResponse submission field)) []))"

definition ExportSubmissions_2 ::
  "(string \<Rightarrow> Time \<Rightarrow> string) \<Rightarrow> User \<Rightarrow> FirestoreService \<Rightarrow> unit reply" where
  "ExportSubmissions_2 Format user fs =
     (let query = Submissions fs;
          query = (if User.Role user \<noteq> ''admin''
                   then Where (\<lambda>s. Submission.UserID s = User.ID user) query else query)
      in (case GetAll query 0 None of
            Inl err \<Rightarrow> ErrorResponse 500 ''internal_error'' ''Failed to retrieve submissions''
          | Inr docs \<Rightarrow>
              String 200
                (foldl (\<lambda>csvContent s. csvContent @
                    Sprintf ''%s,%s,%s,%s,%s\<newline>''
                      [Submission.ID s, Format ''2006-01-02'' (Submission.Date s),
                       Submission.GrowthStage s, Submission.ObserverName s, Submission.Status s])
                  ''ID,Date,Location,Growth Stage,Observer,Status\<newline>''
                  (map snd docs))))"

subsection \<open>Images (handlers/images.go)\<close>

text \<open>
  The blob store: the bucket's name and its objects, each the bytes and the content type
  written under its name. Like the document store it does not fail transiently, so the
  writer's \<^verbatim>\<open>io.Copy\<close> and \<^verbatim>\<open>Close\<close> succeed.
\<close>

record StorageService =
  BucketName :: string
  Objects :: "(string \<times> string \<times> string) list"

definition object_Write ::
  "StorageService \<Rightarrow> string \<Rightarrow> string \<Rightarrow> string \<Rightarrow> fs_error + StorageService" where
  "object_Write ss name contentType bytes =
     Inr (ss\<lparr>Objects := AList.update name (bytes, contentType) (Objects ss)\<rparr>)"

text \<open>
  \<^verbatim>\<open>filepath.Ext\<close>: the suffix of the path from the last dot of its last element, empty
  when that element has no dot. The scan runs from the end of the path.
\<close>

fun Ext_scan :: "string \<Rightarrow> string \<Rightarrow> string" where
  "Ext_scan [] suffix = []"
| "Ext_scan (c # cs) suffix =
     (if c = CHR ''/'' then []
      else if c = CHR ''.'' then c # suffix
      else Ext_scan cs (c # suffix))"

definition Ext :: "string \<Rightarrow> string" where
  "Ext path = Ext_scan (rev path) []"

text \<open>
  \<^verbatim>\<open>addImageToSubmission\<close>: the body of the transaction, which the store runs
  atomically: read the submission, append the URL, write the submission back.
\<close>

definition addImageToSubmission ::
  "FirestoreService \<Rightarrow> string \<Rightarrow> string \<Rightarrow> Time \<Rightarrow> fs_error + FirestoreService" where
  "addImageToSubmission fs submissionID imageURL now =
     (case doc_Get (Submissions fs) submissionID of
        Inl err \<Rightarrow> Inl err
      | Inr submission \<Rightarrow>
          (case doc_Set (Submissions fs) submissionID
                  (submission\<lparr>Submission.Images := Submission.Images submission @ [imageURL],
                              Submission.UpdatedAt := now\<rparr>) of
             Inl err \<Rightarrow> Inl err
           | Inr coll \<Rightarrow> Inr (fs\<lparr>Submissions := coll\<rparr>)))"

text \<open>
  \<^verbatim>\<open>UploadImage\<close>. The form carries \<^verbatim>\<open>submission_id\<close> (empty when absent) and may carry
  the file \<^verbatim>\<open>image\<close>: its name, its content type and its bytes. The slice expression
  \<^verbatim>\<open>submissionID[:5]\<close> panics when the string has fewer than five bytes. An error of
  the call that makes the object public is logged and dropped; the object's access
  list is not part of the model.
\<close>

record FileHeader =
  Filename :: string
  ContentType :: string

record UploadData =
  data_filename :: string
  data_url :: string

definition UploadImage ::
  "(string \<Rightarrow> Time \<Rightarrow> string) \<Rightarrow> FirestoreService \<Rightarrow> StorageService \<Rightarrow> string
     \<Rightarrow> (FileHeader \<times> string) option \<Rightarrow> string \<Rightarrow> Time
     \<Rightarrow> UploadData reply \<times> FirestoreService \<times> StorageService" where
  "UploadImage Format fs ss submissionID file newID now =
     (if submissionID = [] then
        (ErrorResponse 400 ''invalid_request'' ''submission_id is required'', fs, ss)
      else (case file of
        None \<Rightarrow> (ErrorResponse 400 ''invalid_request'' ''No file uploaded'', fs, ss)
      | Some (header, bytes) \<Rightarrow>
          if \<not> ValidateFileType (Filename header) then
            (ErrorResponse 400 ''invalid_file_type''
               ''Only JPG, JPEG, PNG, and WebP files are allowed'', fs, ss)
          else
            (let filename = Sprintf ''%s/%s_%s%s''
                   [submissionID, newID, Format ''20060102_150405'' now, Ext (Filename header)]
             in (case object_Write ss filename (ContentType header) bytes of
                Inl err \<Rightarrow> (ErrorResponse 500 ''upload_failed'' ''Failed to upload file'', fs, ss)
              | Inr ss' \<Rightarrow>
                  (let imageURL = Sprintf ''https://storage.googleapis.com/%s/%s''
                         [BucketName ss', filename];
                       ok = SuccessResponse 200
                              (Some \<lparr>data_filename = filename, data_url = imageURL\<rparr>)
                              ''Image uploaded successfully''
                   in if submissionID \<noteq> [] \<and> length submissionID < 5 then (Panic, fs, ss')
                      else if submissionID \<noteq> [] \<and> take 5 submissionID \<noteq> ''temp_'' then
                        (case addImageToSubmission fs submissionID imageURL now of
                           Inl err \<Rightarrow>
                             (ErrorResponse 500 ''internal_error''
                                ''Failed to update submission with image'', fs, ss')
                         | Inr fs' \<Rightarrow> (ok, fs', ss'))
                      else (ok, fs, ss'))))))"

subsection \<open>Identity (handlers/auth.go)\<close>

text \<open>
  \<^verbatim>\<open>getOrCreateUser\<close>: the first stored user with the asserted e-mail address, or a new
  user under the fresh identifier \<open>newID\<close>.
\<close>

definition getOrCreateUser ::
  "FirestoreService \<Rightarrow> GoogleUserInfo \<Rightarrow> string \<Rightarrow> Time \<Rightarrow> fs_error + User \<times> FirestoreService" where
  "getOrCreateUser fs tokenInfo newID now =
     (case GetAll (Where (\<lambda>u. User.Email u = GoogleUserInfo.Email tokenInfo) (Users fs)) 0 None of
        Inl err \<Rightarrow> Inl err
      | Inr docs \<Rightarrow>
          (case docs of
             d # ds \<Rightarrow> Inr (snd d, fs)
           | [] \<Rightarrow>
               (let new =
                      \<lparr>User.ID = newID,
                       User.Email = GoogleUserInfo.Email tokenInfo,
                       User.Name = GoogleUserInfo.Name tokenInfo,
                       User.Picture = GoogleUserInfo.Picture tokenInfo,
                       User.Role = ''observer'',
                       User.CreatedAt = now,
                       User.UpdatedAt = now,
                       User.LastLoginAt = now\<rparr>
                in (case doc_Set (Users fs) (User.ID new) new of
                      Inl err \<Rightarrow> Inl err
                    | Inr coll \<Rightarrow> Inr (new, fs\<lparr>Users := coll\<rparr>)))))"

text \<open>
  \<^verbatim>\<open>updateUserLastLogin\<close> sends the one update \<^verbatim>\<open>last_login_at\<close>; an error of the store
  is logged and dropped. \<open>merge_User_time\<close> is the store's replacement of a time-valued
  field of a stored user.
\<close>

definition merge_User_time :: "string list \<Rightarrow> Time \<Rightarrow> User \<Rightarrow> User" where
  "merge_User_time fp t u =
     (if fp = [''last_login_at''] then u\<lparr>User.LastLoginAt := t\<rparr>
      else if fp = [''updated_at''] then u\<lparr>User.UpdatedAt := t\<rparr>
      else if fp = [''created_at''] then u\<lparr>User.CreatedAt := t\<rparr>
      else u)"

definition updateUserLastLogin :: "FirestoreService \<Rightarrow> string \<Rightarrow> Time \<Rightarrow> FirestoreService" where
  "updateUserLastLogin fs userID now =
     (case doc_Update merge_User_time (Users fs) userID [(''last_login_at'', now)] of
        Inl err \<Rightarrow> fs
      | Inr coll \<Rightarrow> fs\<lparr>Users := coll\<rparr>)"

text \<open>
  \<^verbatim>\<open>GoogleLogin\<close>. \<open>payload\<close> is what \<^verbatim>\<open>idtoken.Validate\<close> of the Google library returned
  for the request's assertion: the e-mail address, name and picture it asserts, or nothing
  when the assertion does not verify. \<open>sstr\<close> and \<open>mac\<close> are the JWT library's.
\<close>

definition GoogleLogin ::
  "(SigningMethod \<Rightarrow> Claims \<Rightarrow> string) \<Rightarrow> (SigningMethod \<Rightarrow> string \<Rightarrow> string \<Rightarrow> string)
     \<Rightarrow> string \<Rightarrow> FirestoreService \<Rightarrow> GoogleUserInfo option \<Rightarrow> string \<Rightarrow> Time
     \<Rightarrow> AuthResponse reply \<times> FirestoreService" where
  "GoogleLogin sstr mac jwtSecret fs payload newID now =
     (case payload of
        None \<Rightarrow> (ErrorResponse 401 ''invalid_token'' ''Invalid Google ID token'', fs)
      | Some tokenInfo \<Rightarrow>
          (case getOrCreateUser fs tokenInfo newID now of
             Inl err \<Rightarrow> (ErrorResponse 500 ''internal_error'' ''Failed to process user'', fs)
           | Inr (u, fs') \<Rightarrow>
               (let tokens = GenerateTokens sstr mac jwtSecret u now;
                    u' = u\<lparr>User.LastLoginAt := now\<rparr>;
                    fs'' = updateUserLastLogin fs' (User.ID u') now
                in (JSON 200
                      \<lparr>AuthResponse.User = u', AccessToken = fst tokens,
                       RefreshToken = snd tokens, ExpiresIn = 3600\<rparr>,
                    fs''))))"

section \<open>Sample data\<close>

text \<open>
  A small store on which the properties below are run: two observers and an
  administrator, one field of the first observer, and two of her submissions, the second
  of which names a field that is not stored. Two sample token libraries: a table, which
  reads back the two tokens written in it, and a codec, which serialises every token and
  parses it back.
\<close>

definition alice :: User where
  "alice = \<lparr>User.ID = ''u1'', User.Email = ''a@example.com'', User.Name = ''Alice'',
     User.Picture = [], User.Role = ''observer'', User.CreatedAt = 10, User.UpdatedAt = 10,
     User.LastLoginAt = 10\<rparr>"

definition bob :: User where
  "bob = \<lparr>User.ID = ''u2'', User.Email = ''b@example.com'', User.Name = ''Bob'',
     User.Picture = [], User.Role = ''observer'', User.CreatedAt = 20, User.UpdatedAt = 20,
     User.LastLoginAt = 20\<rparr>"

definition carol :: User where
  "carol = \<lparr>User.ID = ''u0'', User.Email = ''carol@example.com'', User.Name = ''Carol'',
     User.Picture = [], User.Role = ''admin'', User.CreatedAt = 1, User.UpdatedAt = 1,
     User.LastLoginAt = 1\<rparr>"

definition plot1 :: Field where
  "plot1 = \<lparr>Field.ID = ''f1'', Field.Name = ''Plot 1'', Field.Location = ''North'',
     Field.RiceVariety = ''IR64'', Field.TentativeDate = [],
     Field.Coordinates = \<lparr>Latitude = 0, Longitude = 0\<rparr>, Field.Area = 1,
     Field.OwnerID = ''u1'', Field.CreatedAt = 30, Field.UpdatedAt = 30\<rparr>"

definition obs1 :: Submission where
  "obs1 = \<lparr>Submission.ID = ''s1111'', Submission.UserID = ''u1'', Submission.FieldID = ''f1'',
     Submission.Date = 40, Submission.GrowthStage = ''Seedling'',
     Submission.PlantConditions = [''Healthy''],
     Submission.TraitMeasurements =
       \<lparr>CulmLength = 0, PanicleLength = 0, PaniclesPerHill = 0, HillsObserved = 0\<rparr>,
     Submission.Notes = [], Submission.ObserverName = ''Alice'', Submission.Images = [],
     Submission.Status = ''submitted'', Submission.CreatedAt = 41, Submission.UpdatedAt = 41\<rparr>"

definition obs2 :: Submission where
  "obs2 = \<lparr>Submission.ID = ''s2222'', Submission.UserID = ''u1'', Submission.FieldID = ''gone'',
     Submission.Date = 50, Submission.GrowthStage = ''Tillering'',
     Submission.PlantConditions = [],
     Submission.TraitMeasurements =
       \<lparr>CulmLength = 0, PanicleLength = 0, PaniclesPerHill = 0, HillsObserved = 0\<rparr>,
     Submission.Notes = [], Submission.ObserverName = ''Alice'', Submission.Images = [],
     Submission.Status = ''approved'', Submission.CreatedAt = 51, Submission.UpdatedAt = 51\<rparr>"

definition store0 :: FirestoreService where
  "store0 = \<lparr>Users = [(''u1'', alice), (''u2'', bob), (''u0'', carol)],
              Submissions = [(''s1111'', obs1), (''s2222'', obs2)],
              Fields = [(''f1'', plot1)]\<rparr>"

definition bucket0 :: StorageService where
  "bucket0 = \<lparr>BucketName = ''rice-monitor-images-dev'', Objects = []\<rparr>"

definition sample_sstr :: "SigningMethod \<Rightarrow> Claims \<Rightarrow> string" where
  "sample_sstr m c = Claims.UserID c"

definition sample_mac :: "SigningMethod \<Rightarrow> string \<Rightarrow> string \<Rightarrow> string" where
  "sample_mac m key s = key"

definition sample_claims :: "Time \<Rightarrow> Claims" where
  "sample_claims now = \<lparr>Claims.UserID = ''u1'', Claims.Email = ''a@example.com'',
     Claims.Role = ''observer'', Claims.ExpiresAt = Some (now + 3600),
     Claims.IssuedAt = Some now, Claims.NotBefore = None\<rparr>"

definition sample_parse :: "string \<Rightarrow> Token option" where
  "sample_parse t =
     (if t = ''u1.secret'' then
        Some \<lparr>Token.Method = HS256, Token.Claims = sample_claims 100,
              Token.SigningString = ''u1'', Token.Signature = ''secret''\<rparr>
      else if t = ''u1.other'' then
        Some \<lparr>Token.Method = HS256, Token.Claims = sample_claims 100,
              Token.SigningString = ''u1'', Token.Signature = ''other''\<rparr>
      else None)"

definition sample_Format :: "string \<Rightarrow> Time \<Rightarrow> string" where
  "sample_Format layout t = (if layout = ''2006-01-02'' then ''1970-01-01'' else ''19700101_000000'')"














section \<open>Properties of the store\<close>

lemma those_map_Some:
  "those (map f xs) = Some ys \<Longrightarrow> ys = map (\<lambda>x. the (f x)) xs \<and> (\<forall>x \<in> set xs. f x \<noteq> None)"
  by (induction xs arbitrary: ys) (auto split: option.splits)

lemma prefixOf_refl: "prefixOf p p"
  by (simp add: prefixOf_def)

lemma checkNoDupOrPrefix_repeated:
  "p \<in> set ps \<Longrightarrow> \<not> checkNoDupOrPrefix (p # ps)"
proof
  assume p: "p \<in> set ps" and "checkNoDupOrPrefix (p # ps)"
  then have "\<forall>q \<in> set ps. \<not> prefixOf p q" by (simp add: list_all_iff)
  with p have "\<not> prefixOf p p" by blast
  then show False by (simp add: prefixOf_refl)
qed

text \<open>An update list that names its first path again is refused, whatever the document.\<close>

lemma doc_Update_repeated_path:
  assumes "k \<in> fst ` set updates"
  shows "doc_Update merge coll docID ((k, v) # updates) \<noteq> Inr coll'"
proof (cases "those (map (\<lambda>u. parseDotSeparatedString (fst u)) ((k, v) # updates))")
  case None
  then show ?thesis by (simp add: doc_Update_def)
next
  case (Some fps)
  from those_map_Some [OF Some]
  have fps: "fps = map (\<lambda>u. the (parseDotSeparatedString (fst u))) ((k, v) # updates)"
    by simp
  from assms have "the (parseDotSeparatedString k)
      \<in> set (map (\<lambda>u. the (parseDotSeparatedString (fst u))) updates)"
    by force
  then have "\<not> checkNoDupOrPrefix (the (parseDotSeparatedString k)
      # map (\<lambda>u. the (parseDotSeparatedString (fst u))) updates)"
    by (rule checkNoDupOrPrefix_repeated)
  with fps have "\<not> checkNoDupOrPrefix fps" by simp
  with Some show ?thesis by (simp add: doc_Update_def)
qed

lemma doc_Update_error:
  "k \<in> fst ` set updates \<Longrightarrow> \<exists>err. doc_Update merge coll docID ((k, v) # updates) = Inl err"
  using doc_Update_repeated_path [of k updates merge coll docID v]
  by (cases "doc_Update merge coll docID ((k, v) # updates)") auto

lemma update_key_present: "k \<in> fst ` set (AList.update k v al)"
  by (induction al) auto

lemma forced_updated_at_refused:
  "\<exists>err. doc_Update merge coll docID
      ((''updated_at'', v) # AList.update ''updated_at'' v' al) = Inl err"
  by (rule doc_Update_error) (rule update_key_present)

lemma update_fresh_key: "k \<notin> fst ` set al \<Longrightarrow> AList.update k v al = al @ [(k, v)]"
  by (induction al) auto

lemma map_of_distinct_member:
  "distinct (map fst al) \<Longrightarrow> (k, v) \<in> set al \<Longrightarrow> map_of al k = Some v"
  by simp

lemma Where_set: "set (Where test coll) = {d \<in> set coll. test (snd d)}"
  by (auto simp: Where_def)

lemma OrderBy_set: "set (OrderBy_created_at_Desc coll) = set coll"
  by (simp add: OrderBy_created_at_Desc_def)

lemma OrderBy_length: "length (OrderBy_created_at_Desc coll) = length coll"
  by (simp add: OrderBy_created_at_Desc_def)

lemma trunc32_id: "- 2147483648 \<le> i \<Longrightarrow> i \<le> 2147483647 \<Longrightarrow> trunc32 i = i"
  by (simp add: trunc32_def)

lemma trunc32_0: "trunc32 0 = 0"
  by (simp add: trunc32_def)

lemma GetAll_subset: "GetAll coll offset limit = Inr docs \<Longrightarrow> set docs \<subseteq> set coll"
  by (auto simp: GetAll_def split: if_splits option.splits
           dest: in_set_takeD in_set_dropD)

lemma GetAll_whole:
  "int (length coll) \<le> trunc32 limit \<Longrightarrow> GetAll coll 0 (Some limit) = Inr coll"
  by (simp add: GetAll_def trunc32_0)

lemma GetAll_unlimited: "GetAll coll 0 None = Inr coll"
  by (simp add: GetAll_def trunc32_0)

section \<open>Properties of the handlers\<close>

subsection \<open>Updates\<close>

text \<open>
  The update handlers put \<^verbatim>\<open>updated_at\<close> into the caller's map and then build the update
  list from a first entry \<^verbatim>\<open>updated_at\<close> followed by every entry of the map: the path
  occurs twice in every list they send, the store refuses it, and the handler answers
  with an error and leaves the store as it was. Where the body is \<^verbatim>\<open>null\<close> the map is nil
  and a permitted caller's request ends in the panic of the assignment, before anything
  is sent to the store.
\<close>

lemma UpdateSubmission_never_writes:
  "snd (UpdateSubmission merge user fs submissionID updateData now) = fs
   \<and> (fst (UpdateSubmission merge user fs submissionID updateData now) = Panic
      \<or> (\<exists>status err msg. fst (UpdateSubmission merge user fs submissionID updateData now)
            = ErrorResponse status err msg))"
proof (cases "doc_Get (Submissions fs) submissionID")
  case (Inl e)
  then show ?thesis by (simp add: UpdateSubmission_def)
next
  case got: (Inr submission)
  show ?thesis
  proof (cases updateData)
    case None
    with got show ?thesis by (simp add: UpdateSubmission_def)
  next
    case (Some entries)
    have "\<exists>err. doc_Update merge (Submissions fs) submissionID
        ((''updated_at'', GoTime now) # AList.update ''updated_at'' (GoTime now)
           (AList.delete ''created_at'' (AList.delete ''user_id'' (AList.delete ''id'' entries))))
         = Inl err"
      by (rule forced_updated_at_refused)
    then obtain err where "doc_Update merge (Submissions fs) submissionID
        ((''updated_at'', GoTime now) # AList.update ''updated_at'' (GoTime now)
           (AList.delete ''created_at'' (AList.delete ''user_id'' (AList.delete ''id'' entries))))
         = Inl err" ..
    with got Some show ?thesis
      by (simp add: UpdateSubmission_def Let_def)
  qed
qed

lemma UpdateField_never_writes:
  "snd (UpdateField merge user fs fieldID updateData now) = fs
   \<and> (fst (UpdateField merge user fs fieldID updateData now) = Panic
      \<or> (\<exists>status err msg. fst (UpdateField merge user fs fieldID updateData now)
            = ErrorResponse status err msg))"
proof (cases "getFieldByID fs fieldID")
  case (Inl e)
  then show ?thesis by (simp add: UpdateField_def)
next
  case got: (Inr field)
  show ?thesis
  proof (cases updateData)
    case None
    with got show ?thesis by (simp add: UpdateField_def)
  next
    case (Some entries)
    have "\<exists>err. doc_Update merge (Fields fs) fieldID
        ((''updated_at'', GoTime now) # AList.update ''updated_at'' (GoTime now)
           (AList.delete ''created_at'' (AList.delete ''owner_id'' (AList.delete ''id'' entries))))
         = Inl err"
      by (rule forced_updated_at_refused)
    then obtain err where "doc_Update merge (Fields fs) fieldID
        ((''updated_at'', GoTime now) # AList.update ''updated_at'' (GoTime now)
           (AList.delete ''created_at'' (AList.delete ''owner_id'' (AList.delete ''id'' entries))))
         = Inl err" ..
    with got Some show ?thesis
      by (simp add: UpdateField_def Let_def)
  qed
qed

lemma UpdateSubmission_permitted:
  assumes "doc_Get (Submissions fs) submissionID = Inr submission"
    and "User.Role user = ''admin'' \<or> Submission.UserID submission = User.ID user"
  shows "UpdateSubmission merge user fs submissionID (Some entries) now
           = (ErrorResponse 500 ''internal_error'' ''Failed to update submission'', fs)"
proof -
  have "\<exists>err. doc_Update merge (Submissions fs) submissionID
      ((''updated_at'', GoTime now) # AList.update ''updated_at'' (GoTime now)
         (AList.delete ''created_at'' (AList.delete ''user_id'' (AList.delete ''id'' entries))))
       = Inl err"
    by (rule forced_updated_at_refused)
  then obtain err where "doc_Update merge (Submissions fs) submissionID
      ((''updated_at'', GoTime now) # AList.update ''updated_at'' (GoTime now)
         (AList.delete ''created_at'' (AList.delete ''user_id'' (AList.delete ''id'' entries))))
       = Inl err" ..
  with assms show ?thesis
    by (auto simp: UpdateSubmission_def Let_def)
qed

lemma UpdateField_permitted:
  assumes "getFieldByID fs fieldID = Inr field"
    and "User.Role user = ''admin'' \<or> Field.OwnerID field = User.ID user"
  shows "UpdateField merge user fs fieldID (Some entries) now
           = (ErrorResponse 500 ''internal_error'' ''Failed to update field'', fs)"
proof -
  have "\<exists>err. doc_Update merge (Fields fs) fieldID
      ((''updated_at'', GoTime now) # AList.update ''updated_at'' (GoTime now)
         (AList.delete ''created_at'' (AList.delete ''owner_id'' (AList.delete ''id'' entries))))
       = Inl err"
    by (rule forced_updated_at_refused)
  then obtain err where "doc_Update merge (Fields fs) fieldID
      ((''updated_at'', GoTime now) # AList.update ''updated_at'' (GoTime now)
         (AList.delete ''created_at'' (AList.delete ''owner_id'' (AList.delete ''id'' entries))))
       = Inl err" ..
  with assms show ?thesis
    by (auto simp: UpdateField_def Let_def)
qed

lemma UpdateSubmission_nil_map:
  assumes "doc_Get (Submissions fs) submissionID = Inr submission"
    and "User.Role user = ''admin'' \<or> Submission.UserID submission = User.ID user"
  shows "UpdateSubmission merge user fs submissionID None now = (Panic, fs)"
  using assms by (auto simp: UpdateSubmission_def)

lemma UpdateField_nil_map:
  assumes "getFieldByID fs fieldID = Inr field"
    and "User.Role user = ''admin'' \<or> Field.OwnerID field = User.ID user"
  shows "UpdateField merge user fs fieldID None now = (Panic, fs)"
  using assms by (auto simp: UpdateField_def)

text \<open>
  C2 (the code departs from the claim). An update of a stored record by its owner, with
  a map that holds one ordinary key, is answered 500 and writes nothing: the
  \<^verbatim>\<open>updated_at\<close> field is not set and the supplied field is not written. The same holds
  for a field, and whatever the store's replacement \<open>merge\<close> is.
\<close>

theorem Update_owner_refused:
  "UpdateSubmission merge alice store0 ''s1111'' (Some [(''notes'', JString ''dry'')]) 99
     = (ErrorResponse 500 ''internal_error'' ''Failed to update submission'', store0)
   \<and> UpdateField merge' alice store0 ''f1'' (Some [(''name'', JString ''Plot 2'')]) 99
     = (ErrorResponse 500 ''internal_error'' ''Failed to update field'', store0)"
proof -
  have s: "doc_Get (Submissions store0) ''s1111'' = Inr obs1"
    by (simp add: store0_def doc_Get_def)
  have f: "getFieldByID store0 ''f1'' = Inr plot1"
    by (simp add: store0_def getFieldByID_def doc_Get_def)
  have "Submission.UserID obs1 = User.ID alice" "Field.OwnerID plot1 = User.ID alice"
    by (simp_all add: obs1_def plot1_def alice_def)
  with s f show ?thesis
    by (simp add: UpdateSubmission_permitted UpdateField_permitted)
qed


subsection \<open>Tokens\<close>














subsection \<open>The authorization gate\<close>

lemma TrimPrefix_same_iff: "p \<noteq> [] \<Longrightarrow> (TrimPrefix s p = s) = (\<not> HasPrefix s p)"
proof -
  assume p: "p \<noteq> []"
  have "drop (length p) s \<noteq> s" if "length p \<le> length s"
  proof
    assume "drop (length p) s = s"
    then have "length (drop (length p) s) = length s" by simp
    with that p show False by (cases p) auto
  qed
  then show ?thesis by (auto simp: TrimPrefix_def HasPrefix_def)
qed

lemma TrimPrefix_Bearer: "(TrimPrefix h ''Bearer '' = h) = (\<not> HasPrefix h ''Bearer '')"
  by (rule TrimPrefix_same_iff) simp

text \<open>
  C5. The gate answers 401 \<^verbatim>\<open>unauthorized\<close> and aborts exactly when the header is empty,
  does not start with \<^verbatim>\<open>Bearer \<close>, carries a token that fails validation, or carries a
  token whose user id is not a stored user. In every other case it calls the next handler,
  and then the context holds the stored user of the token's user id, that user's id and
  that user's role.
\<close>

theorem RequireAuth_gate:
  "((\<exists>msg. RequireAuth parse mac jwtSecret now fs authHeader
            = AbortWithJSON 401 ''unauthorized'' msg)
      = (authHeader = [] \<or> \<not> HasPrefix authHeader ''Bearer ''
         \<or> (case ValidateToken parse mac jwtSecret now (TrimPrefix authHeader ''Bearer '') of
              Inl err \<Rightarrow> True
            | Inr claims \<Rightarrow> map_of (Users fs) (Claims.UserID claims) = None)))
   \<and> ((\<exists>ctx. RequireAuth parse mac jwtSecret now fs authHeader = Next ctx)
      = (\<not> (\<exists>msg. RequireAuth parse mac jwtSecret now fs authHeader
                   = AbortWithJSON 401 ''unauthorized'' msg)))
   \<and> (\<forall>ctx. RequireAuth parse mac jwtSecret now fs authHeader = Next ctx \<longrightarrow>
        (\<exists>claims. ValidateToken parse mac jwtSecret now (TrimPrefix authHeader ''Bearer '')
                     = Inr claims
           \<and> map_of (Users fs) (Claims.UserID claims) = Some (ctx_user ctx))
        \<and> ctx_user_id ctx = User.ID (ctx_user ctx)
        \<and> ctx_user_role ctx = User.Role (ctx_user ctx))"
  by (auto simp: RequireAuth_def getUserByID_def doc_Get_def TrimPrefix_Bearer
           split: sum.splits option.splits)

text \<open>
  On the sample store: a header without the scheme and a header with an unknown token
  are answered 401; the header with the token of \<open>alice\<close> passes, with her stored user in
  the context.
\<close>

theorem RequireAuth_gate_witness:
  "(\<exists>msg. RequireAuth sample_parse sample_mac ''secret'' 200 store0 ''u1.secret''
            = AbortWithJSON 401 ''unauthorized'' msg)
   \<and> (\<exists>msg. RequireAuth sample_parse sample_mac ''secret'' 200 store0 ''Bearer junk''
            = AbortWithJSON 401 ''unauthorized'' msg)
   \<and> (\<exists>ctx. RequireAuth sample_parse sample_mac ''secret'' 200 store0 ''Bearer u1.secret''
            = Next ctx)
   \<and> RequireAuth sample_parse sample_mac ''secret'' 200 store0 ''Bearer u1.secret''
        = Next \<lparr>ctx_user = alice, ctx_user_id = ''u1'', ctx_user_role = ''observer''\<rparr>"
  using RequireAuth_gate [of sample_parse sample_mac "''secret''" 200 store0 "''u1.secret''"]
    RequireAuth_gate [of sample_parse sample_mac "''secret''" 200 store0 "''Bearer junk''"]
    RequireAuth_gate [of sample_parse sample_mac "''secret''" 200 store0 "''Bearer u1.secret''"]
  by (simp add: RequireAuth_def ValidateToken_def TrimPrefix_def HasPrefix_def
        sample_parse_def sample_mac_def sample_claims_def claims_Valid_def is_HMAC_def
        getUserByID_def doc_Get_def store0_def alice_def)

subsection \<open>Creating a submission\<close>

text \<open>
  C6. Whatever the bound request, the caller and the store: the handler answers 201
  with a submission that is then stored under the fresh identifier, and whose id is that
  identifier, whose owner is the caller, whose status is \<^verbatim>\<open>submitted\<close> and whose two time
  stamps are the server's clock. The request type has no field for the id or the status.
\<close>

theorem CreateSubmission_server_set:
  "\<exists>submission.
      fst (CreateSubmission user fs req newID now)
        = SuccessResponse 201 (Some submission) ''Submission created successfully''
    \<and> doc_Get (Submissions (snd (CreateSubmission user fs req newID now))) newID
        = Inr submission
    \<and> Submission.ID submission = newID
    \<and> Submission.UserID submission = User.ID user
    \<and> Submission.Status submission = ''submitted''
    \<and> Submission.CreatedAt submission = now
    \<and> Submission.UpdatedAt submission = now"
  by (simp add: CreateSubmission_def Let_def doc_Set_def doc_Get_def update_conv')

subsection \<open>Uploading an image\<close>

text \<open>
  C10. When the form's \<^verbatim>\<open>submission_id\<close> is not empty but shorter than five bytes and
  the file's name passes the extension check, the handler panics at the slice
  \<^verbatim>\<open>submissionID[:5]\<close> (after the object has been written) instead of answering; with
  five bytes or more it never panics.
\<close>

theorem UploadImage_short_submission_id:
  "(submissionID \<noteq> [] \<and> length submissionID < 5 \<and> ValidateFileType (Filename header)
      \<longrightarrow> fst (UploadImage Format fs ss submissionID (Some (header, bytes)) newID now) = Panic)
   \<and> (5 \<le> length submissionID
      \<longrightarrow> fst (UploadImage Format fs ss submissionID upload newID now) \<noteq> Panic)"
  by (simp add: UploadImage_def Let_def object_Write_def
           split: option.splits sum.splits prod.splits)

theorem UploadImage_short_submission_id_witness:
  "fst (UploadImage sample_Format store0 bucket0 ''s11''
          (Some (\<lparr>Filename = ''leaf.png'', ContentType = ''image/png''\<rparr>, ''bytes''))
          ''id9'' 60) = Panic
   \<and> fst (UploadImage sample_Format store0 bucket0 ''s1111''
          (Some (\<lparr>Filename = ''leaf.png'', ContentType = ''image/png''\<rparr>, ''bytes''))
          ''id9'' 60) \<noteq> Panic"
  using UploadImage_short_submission_id [where submissionID = "''s11''"
      and header = "\<lparr>Filename = ''leaf.png'', ContentType = ''image/png''\<rparr>"
      and Format = sample_Format and fs = store0 and ss = bucket0 and bytes = "''bytes''"
      and newID = "''id9''" and now = 60]
    UploadImage_short_submission_id [where submissionID = "''s1111''"
      and upload = "Some (\<lparr>Filename = ''leaf.png'', ContentType = ''image/png''\<rparr>, ''bytes'')"
      and Format = sample_Format and fs = store0 and ss = bucket0
      and newID = "''id9''" and now = 60]
  by (simp add: ValidateFileType_def allowedTypes_def)

text \<open>
  The transaction of an upload appends one URL at the end of the image list of the
  stored submission and sets its update time; a sequence of transactions on one
  submission appends their URLs in the order in which they commit.
\<close>

lemma addImageToSubmission_appends:
  "doc_Get (Submissions fs) submissionID = Inr submission \<Longrightarrow>
     \<exists>fs'. addImageToSubmission fs submissionID imageURL now = Inr fs'
       \<and> doc_Get (Submissions fs') submissionID
           = Inr (submission\<lparr>Submission.Images := Submission.Images submission @ [imageURL],
                             Submission.UpdatedAt := now\<rparr>)
       \<and> Users fs' = Users fs \<and> Fields fs' = Fields fs"
  by (simp add: addImageToSubmission_def doc_Set_def doc_Get_def update_conv')

lemma addImageToSubmission_sequence:
  "doc_Get (Submissions fs) submissionID = Inr submission \<Longrightarrow>
     \<exists>fs' stored.
       fold (\<lambda>imageURL r. case r of Inl err \<Rightarrow> Inl err
                | Inr fs1 \<Rightarrow> addImageToSubmission fs1 submissionID imageURL now)
            urls (Inr fs) = Inr fs'
       \<and> doc_Get (Submissions fs') submissionID = Inr stored
       \<and> Submission.Images stored = Submission.Images submission @ urls"
proof (induction urls arbitrary: fs submission)
  case Nil
  then show ?case by simp
next
  case (Cons imageURL urls)
  from addImageToSubmission_appends [OF Cons.prems, of imageURL now]
  obtain fs1 where step: "addImageToSubmission fs submissionID imageURL now = Inr fs1"
    and stored: "doc_Get (Submissions fs1) submissionID
           = Inr (submission\<lparr>Submission.Images := Submission.Images submission @ [imageURL],
                             Submission.UpdatedAt := now\<rparr>)"
    by auto
  from Cons.IH [OF stored] step show ?case by simp
qed


subsection \<open>The CSV export\<close>

text \<open>
  C3 (the code departs from the claim). The header names six columns, the second of
  which after the date is \<^verbatim>\<open>Location\<close>; a row is formatted from five operands, the id,
  the date, the growth stage, the observer and the status. With the six verbs of
  \<^verbatim>\<open>submissions.go\<close> the sixth value of every row is the text \<^verbatim>\<open>%!s(MISSING)\<close>, and the
  growth stage stands in the column of the location; with the five verbs of the second
  copy a row has five values. Here on the two sample submissions, exported by the
  administrator, for any formatting of the dates.
\<close>

theorem ExportSubmissions_rows:
  "ExportSubmissions Format carol store0 =
     String 200
       (''ID,Date,Location,Growth Stage,Observer,Status\<newline>''
        @ ''s1111,'' @ Format ''2006-01-02'' 40 @ '',Seedling,Alice,submitted,%!s(MISSING)\<newline>''
        @ ''s2222,'' @ Format ''2006-01-02'' 50 @ '',Tillering,Alice,approved,%!s(MISSING)\<newline>'')
   \<and> ExportSubmissions_2 Format carol store0 =
     String 200
       (''ID,Date,Location,Growth Stage,Observer,Status\<newline>''
        @ ''s1111,'' @ Format ''2006-01-02'' 40 @ '',Seedling,Alice,submitted\<newline>''
        @ ''s2222,'' @ Format ''2006-01-02'' 50 @ '',Tillering,Alice,approved\<newline>'')"
  by (simp add: ExportSubmissions_def ExportSubmissions_2_def Let_def GetAll_def trunc32_0 Sprintf_def
        carol_def store0_def obs1_def obs2_def)


subsection \<open>Listings\<close>

lemma join_fields_member:
  "r \<in> set (join_fields fs subs) \<Longrightarrow>
     \<exists>s field. s \<in> set subs \<and> doc_Get (Fields fs) (Submission.FieldID s) = Inr field
        \<and> r = toSubmissionResponse s field"
  by (induction subs) (auto split: sum.splits)


lemma GetSubmissions_own:
  assumes "User.Role user \<noteq> ''admin''"
    and "GetSubmissions user fs page limit status fieldID = SuccessResponse st (Some data) msg"
    and "s \<in> set (data_submissions data)"
  shows "Submission.UserID s = User.ID user"
proof -
  define q1 where "q1 = Where (\<lambda>s. Submission.UserID s = User.ID user) (Submissions fs)"
  define q2 where "q2 = (if status \<noteq> [] then Where (\<lambda>s. Submission.Status s = status) q1 else q1)"
  define q3 where "q3 = (if fieldID \<noteq> [] then Where (\<lambda>s. Submission.FieldID s = fieldID) q2 else q2)"
  define offset where "offset = (if page > 1 then wrap64 (wrap64 (page - 1) * limit) else 0)"
  have "GetSubmissions user fs page limit status fieldID =
      (case GetAll (OrderBy_created_at_Desc q3) offset (Some limit) of
         Inl err \<Rightarrow> ErrorResponse 500 ''internal_error'' ''Failed to retrieve submissions''
       | Inr docs \<Rightarrow>
           SuccessResponse 200
             (Some \<lparr>data_submissions = map snd docs, data_page = page, data_limit = limit,
                    data_total = length docs\<rparr>) [])"
    using assms(1) by (simp add: GetSubmissions_def Let_def q1_def q2_def q3_def offset_def)
  with assms(2) obtain docs where
    docs: "GetAll (OrderBy_created_at_Desc q3) offset (Some limit) = Inr docs"
    and data: "data_submissions data = map snd docs"
    by (auto split: sum.splits)
  have "set q3 \<subseteq> set q1" by (auto simp: q3_def q2_def Where_set)
  with GetAll_subset [OF docs] have "set docs \<subseteq> set q1" by (simp add: OrderBy_set)
  with assms(3) data show ?thesis by (auto simp: q1_def Where_set)
qed

lemma GetSubmissions_2_own:
  assumes "User.Role user \<noteq> ''admin''"
    and "GetSubmissions_2 user fs page limit status = SuccessResponse st (Some data) msg"
    and "r \<in> set (data_submissions data)"
  shows "SubmissionResponse.UserID r = User.ID user"
proof -
  define q1 where "q1 = Where (\<lambda>s. Submission.UserID s = User.ID user) (Submissions fs)"
  define offset where "offset = (if page > 1 then wrap64 (wrap64 (page - 1) * limit) else 0)"
  have "GetSubmissions_2 user fs page limit status =
      (case GetAll q1 offset (Some limit) of
         Inl err \<Rightarrow> ErrorResponse 500 ''internal_error'' ''Failed to retrieve submissions''
       | Inr docs \<Rightarrow>
           SuccessResponse 200
             (Some \<lparr>data_submissions = join_fields fs (map snd docs), data_page = page,
                    data_limit = limit,
                    data_total = length (join_fields fs (map snd docs))\<rparr>) [])"
    using assms(1)
    by (simp add: GetSubmissions_2_def Let_def q1_def offset_def split: sum.split)
  with assms(2) obtain docs where
    docs: "GetAll q1 offset (Some limit) = Inr docs"
    and data: "data_submissions data = join_fields fs (map snd docs)"
    by (auto split: sum.splits)
  from assms(3) data obtain s field where s: "s \<in> set (map snd docs)"
    and r: "r = toSubmissionResponse s field"
    by (auto dest!: join_fields_member)
  from s GetAll_subset [OF docs] have "Submission.UserID s = User.ID user"
    by (auto simp: q1_def Where_set)
  with r show ?thesis by (simp add: toSubmissionResponse_def)
qed







lemma GetSubmissions_admin_all:
  assumes "User.Role user = ''admin''" and "page \<le> 1"
    and "int (length (Submissions fs)) \<le> trunc32 limit"
  shows "GetSubmissions user fs page limit [] [] =
           SuccessResponse 200
             (Some \<lparr>data_submissions = map snd (OrderBy_created_at_Desc (Submissions fs)),
                    data_page = page, data_limit = limit,
                    data_total = length (Submissions fs)\<rparr>) []"
proof -
  from assms(3) have "GetAll (OrderBy_created_at_Desc (Submissions fs)) 0 (Some limit)
      = Inr (OrderBy_created_at_Desc (Submissions fs))"
    by (simp add: GetAll_whole OrderBy_length)
  with assms(1,2) show ?thesis
    by (simp add: GetSubmissions_def Let_def OrderBy_length)
qed

subsection \<open>Ownership\<close>

text \<open>
  C1 (the code departs from the claim). The listing of fields does not read the caller
  and puts no filter on the query, where the listings of submissions filter by owner and
  the read of a field refuses another owner's field. On the sample store the observer
  \<open>bob\<close>, who is not an administrator, is listed the field of \<open>alice\<close>.
\<close>

theorem GetFields_lists_foreign_field:
  "GetFields bob store0 = SuccessResponse 200 (Some [plot1]) []
   \<and> User.Role bob \<noteq> ''admin''
   \<and> Field.OwnerID plot1 \<noteq> User.ID bob"
  by (simp add: GetFields_def GetAll_def trunc32_0 store0_def bob_def plot1_def)

text \<open>
  The ownership checks that hold. For a caller who is not an administrator, reading,
  updating and deleting a stored submission or field of another owner is answered 403
  \<^verbatim>\<open>forbidden\<close> and leaves the store unchanged. For an administrator, reading and deleting
  a stored submission or field succeeds (an update does not, see above). The listings
  of submissions return only the caller's own submissions to a caller who is not an
  administrator, and put no owner filter on the query of an administrator: without a
  status or field filter, on the first page and with a limit that covers the collection,
  she is returned every stored submission. The listing of fields returns every stored
  field to every caller.
\<close>

theorem ownership_checks:
  "(User.Role user \<noteq> ''admin'' \<and> doc_Get (Submissions fs) submissionID = Inr submission
      \<and> Submission.UserID submission \<noteq> User.ID user \<longrightarrow>
        GetSubmission user fs submissionID = ErrorResponse 403 ''forbidden'' ''Access denied''
      \<and> GetSubmission_2 user fs submissionID = ErrorResponse 403 ''forbidden'' ''Access denied''
      \<and> UpdateSubmission merge user fs submissionID updateData now
          = (ErrorResponse 403 ''forbidden'' ''Access denied'', fs)
      \<and> DeleteSubmission user fs submissionID
          = (ErrorResponse 403 ''forbidden'' ''Access denied'', fs))
   \<and> (User.Role user \<noteq> ''admin'' \<and> getFieldByID fs fieldID = Inr field
      \<and> Field.OwnerID field \<noteq> User.ID user \<longrightarrow>
        GetField user fs fieldID = ErrorResponse 403 ''forbidden'' ''Access denied''
      \<and> UpdateField merge' user fs fieldID updateData now
          = (ErrorResponse 403 ''forbidden'' ''Access denied'', fs)
      \<and> DeleteField user fs fieldID = (ErrorResponse 403 ''forbidden'' ''Access denied'', fs))
   \<and> (User.Role user = ''admin'' \<and> doc_Get (Submissions fs) submissionID = Inr submission \<longrightarrow>
        GetSubmission user fs submissionID = SuccessResponse 200 (Some submission) []
      \<and> DeleteSubmission user fs submissionID
          = (SuccessResponse 200 None ''Submission deleted successfully'',
             fs\<lparr>Submissions := AList.delete submissionID (Submissions fs)\<rparr>))
   \<and> (User.Role user = ''admin'' \<and> getFieldByID fs fieldID = Inr field \<longrightarrow>
        GetField user fs fieldID = SuccessResponse 200 (Some field) []
      \<and> DeleteField user fs fieldID
          = (SuccessResponse 200 None ''Field deleted successfully'',
             fs\<lparr>Fields := AList.delete fieldID (Fields fs)\<rparr>))
   \<and> (User.Role user \<noteq> ''admin''
      \<and> GetSubmissions user fs page limit status fieldFilter = SuccessResponse st (Some data) msg
      \<longrightarrow> (\<forall>s \<in> set (data_submissions data). Submission.UserID s = User.ID user))
   \<and> (User.Role user \<noteq> ''admin''
      \<and> GetSubmissions_2 user fs page limit status = SuccessResponse st (Some data2) msg
      \<longrightarrow> (\<forall>r \<in> set (data_submissions data2). SubmissionResponse.UserID r = User.ID user))
   \<and> (User.Role user = ''admin'' \<and> page \<le> 1 \<and> int (length (Submissions fs)) \<le> trunc32 limit \<longrightarrow>
        GetSubmissions user fs page limit [] [] =
           SuccessResponse 200
             (Some \<lparr>data_submissions = map snd (OrderBy_created_at_Desc (Submissions fs)),
                    data_page = page, data_limit = limit,
                    data_total = length (Submissions fs)\<rparr>) []
      \<and> set (map snd (OrderBy_created_at_Desc (Submissions fs))) = snd ` set (Submissions fs))
   \<and> GetFields user fs = SuccessResponse 200 (Some (map snd (Fields fs))) []"
proof (intro conjI)
  show "User.Role user \<noteq> ''admin'' \<and> doc_Get (Submissions fs) submissionID = Inr submission
      \<and> Submission.UserID submission \<noteq> User.ID user \<longrightarrow>
        GetSubmission user fs submissionID = ErrorResponse 403 ''forbidden'' ''Access denied''
      \<and> GetSubmission_2 user fs submissionID = ErrorResponse 403 ''forbidden'' ''Access denied''
      \<and> UpdateSubmission merge user fs submissionID updateData now
          = (ErrorResponse 403 ''forbidden'' ''Access denied'', fs)
      \<and> DeleteSubmission user fs submissionID
          = (ErrorResponse 403 ''forbidden'' ''Access denied'', fs)"
    by (simp add: GetSubmission_def GetSubmission_2_def UpdateSubmission_def
          DeleteSubmission_def)
  show "User.Role user \<noteq> ''admin'' \<and> getFieldByID fs fieldID = Inr field
      \<and> Field.OwnerID field \<noteq> User.ID user \<longrightarrow>
        GetField user fs fieldID = ErrorResponse 403 ''forbidden'' ''Access denied''
      \<and> UpdateField merge' user fs fieldID updateData now
          = (ErrorResponse 403 ''forbidden'' ''Access denied'', fs)
      \<and> DeleteField user fs fieldID = (ErrorResponse 403 ''forbidden'' ''Access denied'', fs)"
    by (simp add: GetField_def UpdateField_def DeleteField_def)
  show "User.Role user = ''admin'' \<and> doc_Get (Submissions fs) submissionID = Inr submission \<longrightarrow>
        GetSubmission user fs submissionID = SuccessResponse 200 (Some submission) []
      \<and> DeleteSubmission user fs submissionID
          = (SuccessResponse 200 None ''Submission deleted successfully'',
             fs\<lparr>Submissions := AList.delete submissionID (Submissions fs)\<rparr>)"
    by (simp add: GetSubmission_def DeleteSubmission_def doc_Delete_def)
  show "User.Role user = ''admin'' \<and> getFieldByID fs fieldID = Inr field \<longrightarrow>
        GetField user fs fieldID = SuccessResponse 200 (Some field) []
      \<and> DeleteField user fs fieldID
          = (SuccessResponse 200 None ''Field deleted successfully'',
             fs\<lparr>Fields := AList.delete fieldID (Fields fs)\<rparr>)"
    by (simp add: GetField_def DeleteField_def doc_Delete_def)
  show "User.Role user \<noteq> ''admin''
      \<and> GetSubmissions user fs page limit status fieldFilter = SuccessResponse st (Some data) msg
      \<longrightarrow> (\<forall>s \<in> set (data_submissions data). Submission.UserID s = User.ID user)"
    using GetSubmissions_own [of user fs page limit status fieldFilter st data msg] by simp
  show "User.Role user \<noteq> ''admin''
      \<and> GetSubmissions_2 user fs page limit status = SuccessResponse st (Some data2) msg
      \<longrightarrow> (\<forall>r \<in> set (data_submissions data2). SubmissionResponse.UserID r = User.ID user)"
    using GetSubmissions_2_own [of user fs page limit status st data2 msg] by simp
  show "User.Role user = ''admin'' \<and> page \<le> 1 \<and> int (length (Submissions fs)) \<le> trunc32 limit \<longrightarrow>
        GetSubmissions user fs page limit [] [] =
           SuccessResponse 200
             (Some \<lparr>data_submissions = map snd (OrderBy_created_at_Desc (Submissions fs)),
                    data_page = page, data_limit = limit,
                    data_total = length (Submissions fs)\<rparr>) []
      \<and> set (map snd (OrderBy_created_at_Desc (Submissions fs))) = snd ` set (Submissions fs)"
    using GetSubmissions_admin_all [of user page fs limit] by (simp add: OrderBy_set)
  show "GetFields user fs = SuccessResponse 200 (Some (map snd (Fields fs))) []"
    by (simp add: GetFields_def GetAll_def trunc32_0)
qed


text \<open>The listings of the sample store, for its owner and for the administrator.\<close>

lemma sample_listing_alice:
  "GetSubmissions alice store0 1 20 [] [] =
     SuccessResponse 200
       (Some \<lparr>data_submissions = [obs2, obs1], data_page = 1, data_limit = 20,
              data_total = 2\<rparr>) []"
  by (simp add: GetSubmissions_def Let_def Where_def OrderBy_created_at_Desc_def GetAll_def
        trunc32_def store0_def alice_def obs1_def obs2_def)

lemma sample_listing_carol:
  "GetSubmissions carol store0 1 20 [] [] =
     SuccessResponse 200
       (Some \<lparr>data_submissions = [obs2, obs1], data_page = 1, data_limit = 20,
              data_total = 2\<rparr>) []"
  by (simp add: GetSubmissions_def Let_def Where_def OrderBy_created_at_Desc_def GetAll_def
        trunc32_def store0_def carol_def obs1_def obs2_def)

lemma sample_lookups:
  "doc_Get (Submissions store0) ''s1111'' = Inr obs1"
  "doc_Get (Submissions store0) ''s2222'' = Inr obs2"
  "getFieldByID store0 ''f1'' = Inr plot1"
  "doc_Get (Fields store0) ''gone'' = Inl NotFound"
  "length (Submissions store0) = 2"
  by (simp_all add: store0_def doc_Get_def getFieldByID_def)

lemma sample_roles:
  "User.Role bob \<noteq> ''admin''" "User.Role alice \<noteq> ''admin''" "User.Role carol = ''admin''"
  "User.ID bob = ''u2''" "User.ID alice = ''u1''"
  "Submission.UserID obs1 = ''u1''" "Submission.UserID obs2 = ''u1''"
  "Submission.FieldID obs2 = ''gone''" "Field.OwnerID plot1 = ''u1''"
  by (simp_all add: bob_def alice_def carol_def obs1_def obs2_def plot1_def)

text \<open>
  On the sample store: \<open>bob\<close> is refused the submission and the field of \<open>alice\<close>, the
  administrator reads and deletes them, \<open>alice\<close> and the administrator are listed the
  two submissions, and \<open>bob\<close> is listed the field.
\<close>

theorem ownership_checks_witness:
  "GetSubmission bob store0 ''s1111'' = ErrorResponse 403 ''forbidden'' ''Access denied''
   \<and> UpdateSubmission (\<lambda>fp v s. s) bob store0 ''s1111'' (Some [(''status'', JString ''approved'')]) 99
       = (ErrorResponse 403 ''forbidden'' ''Access denied'', store0)
   \<and> DeleteSubmission bob store0 ''s1111'' = (ErrorResponse 403 ''forbidden'' ''Access denied'', store0)
   \<and> GetField bob store0 ''f1'' = ErrorResponse 403 ''forbidden'' ''Access denied''
   \<and> UpdateField (\<lambda>fp v f. f) bob store0 ''f1'' (Some [(''status'', JString ''approved'')]) 99
       = (ErrorResponse 403 ''forbidden'' ''Access denied'', store0)
   \<and> DeleteField bob store0 ''f1'' = (ErrorResponse 403 ''forbidden'' ''Access denied'', store0)
   \<and> GetSubmission carol store0 ''s1111'' = SuccessResponse 200 (Some obs1) []
   \<and> DeleteSubmission carol store0 ''s1111''
       = (SuccessResponse 200 None ''Submission deleted successfully'',
          store0\<lparr>Submissions := AList.delete ''s1111'' (Submissions store0)\<rparr>)
   \<and> GetField carol store0 ''f1'' = SuccessResponse 200 (Some plot1) []
   \<and> DeleteField carol store0 ''f1''
       = (SuccessResponse 200 None ''Field deleted successfully'',
          store0\<lparr>Fields := AList.delete ''f1'' (Fields store0)\<rparr>)
   \<and> list_all (\<lambda>s. Submission.UserID s = User.ID alice) [obs2, obs1]
   \<and> GetSubmissions carol store0 1 20 [] [] =
       SuccessResponse 200
         (Some \<lparr>data_submissions = map snd (OrderBy_created_at_Desc (Submissions store0)),
                data_page = 1, data_limit = 20, data_total = length (Submissions store0)\<rparr>) []
   \<and> GetFields bob store0 = SuccessResponse 200 (Some (map snd (Fields store0))) []"
  using ownership_checks [where user = bob and fs = store0 and submissionID = "''s1111''"
      and submission = obs1 and fieldID = "''f1''" and field = plot1
      and merge = "\<lambda>fp v s. s" and merge' = "\<lambda>fp v f. f"
      and updateData = "Some [(''status'', JString ''approved'')]" and now = 99]
    ownership_checks [where user = alice and fs = store0 and page = 1 and limit = 20
      and status = "[]" and fieldFilter = "[]" and st = 200 and msg = "[]"
      and data = "\<lparr>data_submissions = [obs2, obs1], data_page = 1, data_limit = 20,
              data_total = 2\<rparr>"]
    ownership_checks [where user = carol and fs = store0 and submissionID = "''s1111''"
      and submission = obs1 and fieldID = "''f1''" and field = plot1
      and page = 1 and limit = 20]
  by (simp add: sample_lookups sample_roles sample_listing_alice trunc32_def)


subsection \<open>Submissions whose field is not stored\<close>







subsection \<open>Resolving an identity\<close>

lemma parse_last_login_at:
  "parseDotSeparatedString ''last_login_at'' = Some [''last_login_at'']"
  by (simp add: parseDotSeparatedString_def)

lemma updateUserLastLogin_stored:
  "map_of (Users fs) userID = Some u \<Longrightarrow>
     updateUserLastLogin fs userID now
       = fs\<lparr>Users := AList.update userID (u\<lparr>User.LastLoginAt := now\<rparr>) (Users fs)\<rparr>"
  by (simp add: updateUserLastLogin_def doc_Update_def parse_last_login_at merge_User_time_def)

lemma find_None_filter: "find P xs = None \<Longrightarrow> filter P xs = []"
  by (induction xs) (auto split: if_splits)

lemma find_Some_filter: "find P xs = Some d \<Longrightarrow> \<exists>ds. filter P xs = d # ds"
  by (induction xs) (auto split: if_splits)

lemma getOrCreateUser_new:
  assumes "find (\<lambda>d. User.Email (snd d) = GoogleUserInfo.Email tokenInfo) (Users fs) = None"
  shows "getOrCreateUser fs tokenInfo newID now =
     Inr (\<lparr>User.ID = newID, User.Email = GoogleUserInfo.Email tokenInfo,
           User.Name = GoogleUserInfo.Name tokenInfo,
           User.Picture = GoogleUserInfo.Picture tokenInfo, User.Role = ''observer'',
           User.CreatedAt = now, User.UpdatedAt = now, User.LastLoginAt = now\<rparr>,
          fs\<lparr>Users := AList.update newID
            \<lparr>User.ID = newID, User.Email = GoogleUserInfo.Email tokenInfo,
             User.Name = GoogleUserInfo.Name tokenInfo,
             User.Picture = GoogleUserInfo.Picture tokenInfo, User.Role = ''observer'',
             User.CreatedAt = now, User.UpdatedAt = now, User.LastLoginAt = now\<rparr>
            (Users fs)\<rparr>)"
  using find_None_filter [OF assms]
  by (simp add: getOrCreateUser_def GetAll_def trunc32_def Where_def Let_def doc_Set_def)

lemma getOrCreateUser_existing:
  assumes "find (\<lambda>d. User.Email (snd d) = GoogleUserInfo.Email tokenInfo) (Users fs) = Some (k, u)"
  shows "getOrCreateUser fs tokenInfo newID now = Inr (u, fs)"
proof -
  from find_Some_filter [OF assms] obtain ds where
    "filter (\<lambda>d. User.Email (snd d) = GoogleUserInfo.Email tokenInfo) (Users fs) = (k, u) # ds" ..
  then show ?thesis
    by (simp add: getOrCreateUser_def GetAll_def trunc32_def Where_def)
qed

text \<open>
  C8. For an assertion that verifies: when no stored user has the asserted e-mail
  address, a user is created under the fresh identifier, with the role \<^verbatim>\<open>observer\<close> and
  the three time stamps set from the server's clock, and is returned; when a stored user
  has it, the first such user is returned, no document is added, and nothing of the
  stored user changes but the time of the last login. In both cases the stored user's
  last login is the time of the request. The generated identifier is fresh; document
  ids are unique, and the found user is stored under its own id, as every user this
  handler creates is.
\<close>

theorem GoogleLogin_resolves:
  "(find (\<lambda>d. User.Email (snd d) = GoogleUserInfo.Email tokenInfo) (Users fs) = None
      \<and> newID \<notin> fst ` set (Users fs)
      \<longrightarrow> (\<exists>created.
            fst (GoogleLogin sstr mac jwtSecret fs (Some tokenInfo) newID now) =
              JSON 200 \<lparr>AuthResponse.User = created,
                 AccessToken = fst (GenerateTokens sstr mac jwtSecret created now),
                 RefreshToken = snd (GenerateTokens sstr mac jwtSecret created now),
                 ExpiresIn = 3600\<rparr>
          \<and> User.ID created = newID
          \<and> User.Email created = GoogleUserInfo.Email tokenInfo
          \<and> User.Role created = ''observer''
          \<and> User.CreatedAt created = now \<and> User.UpdatedAt created = now
          \<and> User.LastLoginAt created = now
          \<and> map_of (Users (snd (GoogleLogin sstr mac jwtSecret fs (Some tokenInfo) newID now)))
              = (map_of (Users fs))(newID \<mapsto> created)
          \<and> length (Users (snd (GoogleLogin sstr mac jwtSecret fs (Some tokenInfo) newID now)))
              = Suc (length (Users fs))))
   \<and> (find (\<lambda>d. User.Email (snd d) = GoogleUserInfo.Email tokenInfo) (Users fs) = Some (k, u)
      \<and> User.ID u = k \<and> distinct (map fst (Users fs))
      \<longrightarrow> fst (GoogleLogin sstr mac jwtSecret fs (Some tokenInfo) newID now) =
              JSON 200 \<lparr>AuthResponse.User = u\<lparr>User.LastLoginAt := now\<rparr>,
                 AccessToken = fst (GenerateTokens sstr mac jwtSecret u now),
                 RefreshToken = snd (GenerateTokens sstr mac jwtSecret u now),
                 ExpiresIn = 3600\<rparr>
          \<and> map_of (Users (snd (GoogleLogin sstr mac jwtSecret fs (Some tokenInfo) newID now)))
              = (map_of (Users fs))(k \<mapsto> u\<lparr>User.LastLoginAt := now\<rparr>)
          \<and> map fst (Users (snd (GoogleLogin sstr mac jwtSecret fs (Some tokenInfo) newID now)))
              = map fst (Users fs)
          \<and> doc_Get (Users (snd (GoogleLogin sstr mac jwtSecret fs (Some tokenInfo) newID now))) k
              = Inr (u\<lparr>User.LastLoginAt := now\<rparr>))"
proof (intro conjI impI; elim conjE)
  let ?new = "\<lparr>User.ID = newID, User.Email = GoogleUserInfo.Email tokenInfo,
           User.Name = GoogleUserInfo.Name tokenInfo,
           User.Picture = GoogleUserInfo.Picture tokenInfo, User.Role = ''observer'',
           User.CreatedAt = now, User.UpdatedAt = now, User.LastLoginAt = now\<rparr>"
  let ?login = "GoogleLogin sstr mac jwtSecret fs (Some tokenInfo) newID now"
  {
    assume none: "find (\<lambda>d. User.Email (snd d) = GoogleUserInfo.Email tokenInfo) (Users fs) = None"
      and fresh: "newID \<notin> fst ` set (Users fs)"
    have stored: "map_of (AList.update newID ?new (Users fs)) newID = Some ?new"
      by (simp add: update_conv')
    have same: "?new\<lparr>User.LastLoginAt := now\<rparr> = ?new" by simp
    have tok: "GenerateTokens sstr mac jwtSecret (?new\<lparr>User.LastLoginAt := now\<rparr>) now
        = GenerateTokens sstr mac jwtSecret ?new now"
      by (simp only: same)
    have login: "?login =
        (JSON 200 \<lparr>AuthResponse.User = ?new,
                 AccessToken = fst (GenerateTokens sstr mac jwtSecret ?new now),
                 RefreshToken = snd (GenerateTokens sstr mac jwtSecret ?new now),
                 ExpiresIn = 3600\<rparr>,
         fs\<lparr>Users := AList.update newID ?new (AList.update newID ?new (Users fs))\<rparr>)"
      using stored
      by (simp add: GoogleLogin_def getOrCreateUser_new [OF none] Let_def
            updateUserLastLogin_stored)
    have twice: "AList.update newID ?new (AList.update newID ?new (Users fs))
        = AList.update newID ?new (Users fs)"
      using stored by (simp add: update_triv)
    have len: "length (AList.update newID ?new (Users fs)) = Suc (length (Users fs))"
      using fresh by (simp add: update_fresh_key)
    from login twice have login': "?login =
        (JSON 200 \<lparr>AuthResponse.User = ?new,
                 AccessToken = fst (GenerateTokens sstr mac jwtSecret ?new now),
                 RefreshToken = snd (GenerateTokens sstr mac jwtSecret ?new now),
                 ExpiresIn = 3600\<rparr>,
         fs\<lparr>Users := AList.update newID ?new (Users fs)\<rparr>)"
      by simp
    show "\<exists>created.
            fst ?login =
              JSON 200 \<lparr>AuthResponse.User = created,
                 AccessToken = fst (GenerateTokens sstr mac jwtSecret created now),
                 RefreshToken = snd (GenerateTokens sstr mac jwtSecret created now),
                 ExpiresIn = 3600\<rparr>
          \<and> User.ID created = newID
          \<and> User.Email created = GoogleUserInfo.Email tokenInfo
          \<and> User.Role created = ''observer''
          \<and> User.CreatedAt created = now \<and> User.UpdatedAt created = now
          \<and> User.LastLoginAt created = now
          \<and> map_of (Users (snd ?login)) = (map_of (Users fs))(newID \<mapsto> created)
          \<and> length (Users (snd ?login)) = Suc (length (Users fs))"
      by (intro exI [of _ ?new]) (simp add: login' update_conv' len)
  }
  {
    assume found: "find (\<lambda>d. User.Email (snd d) = GoogleUserInfo.Email tokenInfo) (Users fs)
        = Some (k, u)"
      and id: "User.ID u = k" and dist: "distinct (map fst (Users fs))"
    from found have "(k, u) \<in> set (Users fs)"
      by (auto simp: find_Some_iff)
    with dist have stored: "map_of (Users fs) k = Some u" by simp
    then have keys: "k \<in> fst ` set (Users fs)"
      by (force dest: map_of_SomeD)
    have tokens: "GenerateTokens sstr mac jwtSecret (u\<lparr>User.LastLoginAt := now\<rparr>) now
        = GenerateTokens sstr mac jwtSecret u now"
      by (simp add: GenerateTokens_def)
    have login: "?login =
        (JSON 200 \<lparr>AuthResponse.User = u\<lparr>User.LastLoginAt := now\<rparr>,
                 AccessToken = fst (GenerateTokens sstr mac jwtSecret u now),
                 RefreshToken = snd (GenerateTokens sstr mac jwtSecret u now),
                 ExpiresIn = 3600\<rparr>,
         fs\<lparr>Users := AList.update k (u\<lparr>User.LastLoginAt := now\<rparr>) (Users fs)\<rparr>)"
      using stored id
      by (simp add: GoogleLogin_def getOrCreateUser_existing [OF found] Let_def
            updateUserLastLogin_stored)
    from login show "fst ?login =
              JSON 200 \<lparr>AuthResponse.User = u\<lparr>User.LastLoginAt := now\<rparr>,
                 AccessToken = fst (GenerateTokens sstr mac jwtSecret u now),
                 RefreshToken = snd (GenerateTokens sstr mac jwtSecret u now),
                 ExpiresIn = 3600\<rparr>"
      by simp
    from login show "map_of (Users (snd ?login))
        = (map_of (Users fs))(k \<mapsto> u\<lparr>User.LastLoginAt := now\<rparr>)"
      by (simp add: update_conv')
    from login keys show "map fst (Users (snd ?login)) = map fst (Users fs)"
      by (simp add: update_keys)
    from login show "doc_Get (Users (snd ?login)) k = Inr (u\<lparr>User.LastLoginAt := now\<rparr>)"
      by (simp add: doc_Get_def update_conv')
  }
qed


text \<open>
  On the sample store: an assertion for an unknown address creates an observer under
  the fresh id, beside the three stored users; an assertion for the address of \<open>alice\<close>
  returns her, and stores the time of the login in her document.
\<close>

theorem GoogleLogin_resolves_witness:
  "(\<exists>created.
      fst (GoogleLogin sample_sstr sample_mac ''secret'' store0
             (Some \<lparr>GoogleUserInfo.Email = ''z@example.com'', GoogleUserInfo.Name = ''Zoe'',
                    GoogleUserInfo.Picture = []\<rparr>) ''u9'' 500) =
        JSON 200 \<lparr>AuthResponse.User = created,
           AccessToken = fst (GenerateTokens sample_sstr sample_mac ''secret'' created 500),
           RefreshToken = snd (GenerateTokens sample_sstr sample_mac ''secret'' created 500),
           ExpiresIn = 3600\<rparr>
    \<and> User.ID created = ''u9''
    \<and> User.Email created = ''z@example.com''
    \<and> User.Role created = ''observer''
    \<and> User.CreatedAt created = 500 \<and> User.UpdatedAt created = 500
    \<and> User.LastLoginAt created = 500
    \<and> map_of (Users (snd (GoogleLogin sample_sstr sample_mac ''secret'' store0
             (Some \<lparr>GoogleUserInfo.Email = ''z@example.com'', GoogleUserInfo.Name = ''Zoe'',
                    GoogleUserInfo.Picture = []\<rparr>) ''u9'' 500)))
        = (map_of (Users store0))(''u9'' \<mapsto> created)
    \<and> length (Users (snd (GoogleLogin sample_sstr sample_mac ''secret'' store0
             (Some \<lparr>GoogleUserInfo.Email = ''z@example.com'', GoogleUserInfo.Name = ''Zoe'',
                    GoogleUserInfo.Picture = []\<rparr>) ''u9'' 500)))
        = Suc (length (Users store0)))
   \<and> fst (GoogleLogin sample_sstr sample_mac ''secret'' store0
             (Some \<lparr>GoogleUserInfo.Email = ''a@example.com'', GoogleUserInfo.Name = ''Alice'',
                    GoogleUserInfo.Picture = []\<rparr>) ''u9'' 500) =
        JSON 200 \<lparr>AuthResponse.User = alice\<lparr>User.LastLoginAt := 500\<rparr>,
           AccessToken = fst (GenerateTokens sample_sstr sample_mac ''secret'' alice 500),
           RefreshToken = snd (GenerateTokens sample_sstr sample_mac ''secret'' alice 500),
           ExpiresIn = 3600\<rparr>
   \<and> map fst (Users (snd (GoogleLogin sample_sstr sample_mac ''secret'' store0
             (Some \<lparr>GoogleUserInfo.Email = ''a@example.com'', GoogleUserInfo.Name = ''Alice'',
                    GoogleUserInfo.Picture = []\<rparr>) ''u9'' 500)))
        = [''u1'', ''u2'', ''u0'']
   \<and> doc_Get (Users (snd (GoogleLogin sample_sstr sample_mac ''secret'' store0
             (Some \<lparr>GoogleUserInfo.Email = ''a@example.com'', GoogleUserInfo.Name = ''Alice'',
                    GoogleUserInfo.Picture = []\<rparr>) ''u9'' 500))) ''u1''
        = Inr (alice\<lparr>User.LastLoginAt := 500\<rparr>)"
proof -
  have users: "Users store0 = [(''u1'', alice), (''u2'', bob), (''u0'', carol)]"
    by (simp add: store0_def)
  have emails: "User.Email alice = ''a@example.com''" "User.Email bob = ''b@example.com''"
    "User.Email carol = ''carol@example.com''" "User.ID alice = ''u1''"
    by (simp_all add: alice_def bob_def carol_def)
  show ?thesis
    using GoogleLogin_resolves [where fs = store0 and newID = "''u9''" and now = 500
        and sstr = sample_sstr and mac = sample_mac and jwtSecret = "''secret''"
        and tokenInfo = "\<lparr>GoogleUserInfo.Email = ''z@example.com'',
              GoogleUserInfo.Name = ''Zoe'', GoogleUserInfo.Picture = []\<rparr>"]
      GoogleLogin_resolves [where fs = store0 and newID = "''u9''" and now = 500
        and sstr = sample_sstr and mac = sample_mac and jwtSecret = "''secret''"
        and tokenInfo = "\<lparr>GoogleUserInfo.Email = ''a@example.com'',
              GoogleUserInfo.Name = ''Alice'', GoogleUserInfo.Picture = []\<rparr>"
        and k = "''u1''" and u = alice]
    by (simp add: users emails doc_Get_def)
qed

end
